theory Spec2Isabelle
  imports Main "HOL-Library.AList"
begin

section \<open>JavaScript values\<close>

text \<open>
  Values that come out of \<open>JSON.parse\<close> (tenant, user and session records, the
  inference service's answers). An object is the list of its own properties in the
  order an enumeration gives them: the names that are array indices first, ascending,
  then the other names in the order they were created. A property whose value is
  \<open>undefined\<close> is left out, as \<open>JSON.stringify\<close> leaves it out. A number is kept as the
  text \<open>String(n)\<close> gives.
\<close>

datatype json =
    JNull
  | JBool bool
  | JNum string
  | JStr string
  | JArr "json list"
  | JObj "(string \<times> json) list"

text \<open>What the code can throw.\<close>

datatype error =
    Boom nat string
  | Error string
  | SyntaxError
  | TypeError
  | RedisError string

text \<open>\<open>Boom.isBoom(error)\<close>\<close>

fun isBoom :: "error \<Rightarrow> bool" where
  "isBoom (Boom _ _) = True"
| "isBoom _ = False"

text \<open>\<open>obj[k]\<close> for the property names the code reads; \<open>None\<close> is \<open>undefined\<close>.\<close>

fun get_prop :: "json \<Rightarrow> string \<Rightarrow> json option" where
  "get_prop (JObj fs) k = map_of fs k"
| "get_prop _ k = None"

text \<open>Truthiness of a value (\<open>if (x)\<close>, \<open>x || y\<close>, \<open>!x\<close>).\<close>

fun truthy :: "json option \<Rightarrow> bool" where
  "truthy None = False"
| "truthy (Some JNull) = False"
| "truthy (Some (JBool b)) = b"
| "truthy (Some (JNum n)) = (n \<noteq> ''0'' \<and> n \<noteq> ''NaN'')"
| "truthy (Some (JStr s)) = (s \<noteq> [])"
| "truthy (Some (JArr _)) = True"
| "truthy (Some (JObj _)) = True"

text \<open>Truthiness of a string or \<open>null\<close>, as \<open>redis.get\<close> returns it.\<close>

fun truthy_str :: "string option \<Rightarrow> bool" where
  "truthy_str None = False"
| "truthy_str (Some s) = (s \<noteq> [])"

fun join_comma :: "string list \<Rightarrow> string" where
  "join_comma [] = []"
| "join_comma [s] = s"
| "join_comma (s # t # ss) = s @ '','' @ join_comma (t # ss)"

text \<open>\<open>String(v)\<close>, the conversion a template string \<open>`...${v}`\<close> applies.\<close>

fun js_String :: "json \<Rightarrow> string" where
  "js_String JNull = ''null''"
| "js_String (JBool b) = (if b then ''true'' else ''false'')"
| "js_String (JNum n) = n"
| "js_String (JStr s) = s"
| "js_String (JArr xs) = join_comma (map (\<lambda>x. if x = JNull then [] else js_String x) xs)"
| "js_String (JObj fs) = ''[object Object]''"

fun template :: "json option \<Rightarrow> string" where
  "template None = ''undefined''"
| "template (Some v) = js_String v"

definition digit_char :: "nat \<Rightarrow> char" where
  "digit_char d = char_of (48 + d)"

function show_nat :: "nat \<Rightarrow> string" where
  "show_nat n = (if n < 10 then [digit_char n] else show_nat (n div 10) @ [digit_char (n mod 10)])"
  by pat_completeness auto
termination
  by (relation "measure id") auto

declare show_nat.simps [simp del]

text \<open>The index-named properties of an array or of a string: \<open>"0"\<close>, \<open>"1"\<close>, ...\<close>

fun indexed :: "nat \<Rightarrow> json list \<Rightarrow> (string \<times> json) list" where
  "indexed i [] = []"
| "indexed i (x # xs) = (show_nat i, x) # indexed (Suc i) xs"

text \<open>
  The own enumerable properties a spread or a rest pattern copies. \<open>null\<close> cannot be
  destructured (\<open>None\<close>: a TypeError); a boolean or a number has none.
\<close>

fun own_props :: "json \<Rightarrow> (string \<times> json) list option" where
  "own_props JNull = None"
| "own_props (JBool _) = Some []"
| "own_props (JNum _) = Some []"
| "own_props (JStr s) = Some (indexed 0 (map (\<lambda>c. JStr [c]) s))"
| "own_props (JArr xs) = Some (indexed 0 xs)"
| "own_props (JObj fs) = Some fs"

text \<open>\<open>const { k: _, ...rest } = v\<close>: the object \<open>rest\<close>.\<close>

definition object_rest :: "string \<Rightarrow> json \<Rightarrow> error + json" where
  "object_rest k v =
     (case own_props v of
        None \<Rightarrow> Inl TypeError
      | Some fs \<Rightarrow> Inr (JObj (AList.delete k fs)))"

text \<open>
  A property name is an array index when it is the canonical text of an integer from
  0 to \<open>2^32 - 2\<close>: digits only, no leading zero.
\<close>

definition is_digit :: "char \<Rightarrow> bool" where
  "is_digit c = (c \<in> set ''0123456789'')"

definition digit_val :: "char \<Rightarrow> nat" where
  "digit_val c = of_char c - 48"

definition digits_val :: "string \<Rightarrow> nat" where
  "digits_val k = fold (\<lambda>c n. 10 * n + digit_val c) k 0"

fun index_key :: "string \<Rightarrow> nat option" where
  "index_key [] = None"
| "index_key (c # cs) =
     (if is_digit c \<and> list_all is_digit cs \<and> (c \<noteq> CHR ''0'' \<or> cs = []) \<and>
         digits_val (c # cs) < 4294967295
      then Some (digits_val (c # cs)) else None)"

text \<open>A new array index \<open>n\<close>, named \<open>k\<close>, takes its place among the array indices.\<close>

fun insert_index :: "nat \<Rightarrow> string \<Rightarrow> json \<Rightarrow> (string \<times> json) list \<Rightarrow> (string \<times> json) list" where
  "insert_index n k v [] = [(k, v)]"
| "insert_index n k v (p # fs) =
     (case index_key (fst p) of
        Some m \<Rightarrow> if m < n then p # insert_index n k v fs else (k, v) # p # fs
      | None \<Rightarrow> (k, v) # p # fs)"

text \<open>
  \<open>obj[k] = v\<close> on the property list: an existing name keeps its place, a new array
  index goes among the array indices, any other new name goes last.
\<close>

definition put_prop :: "string \<Rightarrow> json \<Rightarrow> (string \<times> json) list \<Rightarrow> (string \<times> json) list" where
  "put_prop k v fs =
     (case index_key k of
        None \<Rightarrow> AList.update k v fs
      | Some n \<Rightarrow> if k \<in> fst ` set fs then AList.update k v fs else insert_index n k v fs)"

text \<open>
  An object literal \<open>{ ...base, k1: v1, k2: v2 }\<close>: each property is set in turn; a
  property given the value \<open>undefined\<close> is dropped.
\<close>

fun set_props :: "(string \<times> json option) list \<Rightarrow> (string \<times> json) list \<Rightarrow> (string \<times> json) list" where
  "set_props [] fs = fs"
| "set_props ((k, None) # ps) fs = set_props ps (AList.delete k fs)"
| "set_props ((k, Some v) # ps) fs = set_props ps (put_prop k v fs)"

text \<open>
  \<open>{ ...a, ...b }\<close> on property lists: the properties of \<open>b\<close> are set on \<open>a\<close> in turn, in
  the order of \<open>b\<close>. A name that \<open>b\<close> lists twice counts once, with the value
  \<open>get_prop\<close> reads.
\<close>

definition spread :: "(string \<times> json) list \<Rightarrow> (string \<times> json) list \<Rightarrow> (string \<times> json) list" where
  "spread a b = fold (\<lambda>(k, v). put_prop k v) (AList.clearjunk b) a"

text \<open>The properties \<open>...v\<close> contributes to an object literal (\<open>null\<close>: none).\<close>

definition spread_props :: "json \<Rightarrow> (string \<times> json) list" where
  "spread_props v = (case own_props v of None \<Rightarrow> [] | Some fs \<Rightarrow> fs)"

text \<open>
  A property the type declarations give as a string (\<open>tenant.tenantId\<close>,
  \<open>user.userId\<close>), used as one: in a key or passed on as an id.
\<close>

definition string_prop :: "json \<Rightarrow> string \<Rightarrow> string" where
  "string_prop v k = template (get_prop v k)"

section \<open>Libraries the code calls\<close>

text \<open>
  The functions of the runtime and of third-party packages the code calls are
  parameters: \<open>JSON.parse\<close> (\<open>None\<close> when it throws a SyntaxError) and
  \<open>JSON.stringify\<close>; \<open>JWT.token.generate\<close> of @hapi/jwt and the decoding and
  verification the \<open>jwt\<close> strategy does with the configured key and \<open>verify\<close> options
  before it calls \<open>validate\<close> (\<open>None\<close>: the token is malformed, has a bad signature, is
  expired or too old); \<open>bcrypt.hash\<close> and \<open>bcrypt.compare\<close>; Joi's test for a UUID and
  its verdict on a payload against a schema of the routes (the properties of the
  validated object, with the defaults filled in, or \<open>None\<close>) and on a response against the response schema
  of the chat route; the environment variable \<open>JWT_SECRET\<close>.
\<close>

record JWTPayload =
  aud :: string
  iss :: string
  userId :: string
  tenantId :: string
  role :: string

record libs =
  JSON_parse :: "string \<Rightarrow> json option"
  JSON_stringify :: "json \<Rightarrow> string"
  JWT_token_generate :: "json \<Rightarrow> string \<Rightarrow> nat \<Rightarrow> string"
  JWT_verify :: "string \<Rightarrow> JWTPayload option"
  bcrypt_hash :: "string \<Rightarrow> nat \<Rightarrow> string"
  bcrypt_compare :: "string \<Rightarrow> string \<Rightarrow> bool"
  Joi_uuid :: "string \<Rightarrow> bool"
  Joi_payload :: "string \<Rightarrow> json \<Rightarrow> (string \<times> json) list option"
  Joi_response :: "json \<Rightarrow> bool"
  env_JWT_SECRET :: "string option"

section \<open>The Redis store\<close>

text \<open>
  One key space; a key holds a string or a set. \<open>connected\<close>: \<open>redisClient.connect()\<close>
  has run, so that \<open>getClient()\<close> returns the client (\<open>tenantService.initialize()\<close>
  takes it from there). \<open>reachable\<close>: the server answers; otherwise each command
  rejects. \<open>ttls\<close> keeps the expiry \<open>setEx\<close> was given; the passing of time is not
  part of the model, a state holds the keys that have not expired.
\<close>

datatype rval = RString string | RSet "string list"

record redis =
  connected :: bool
  reachable :: bool
  vals :: "string \<Rightarrow> rval option"
  ttls :: "string \<Rightarrow> nat option"

text \<open>
  A computation on the store: it returns a value or throws, and leaves a store
  behind either way (no command is undone when a later one throws).
\<close>

type_synonym 'a io = "redis \<Rightarrow> (error + 'a) \<times> redis"

definition returnIO :: "'a \<Rightarrow> 'a io" where
  "returnIO x = (\<lambda>s. (Inr x, s))"

definition throwIO :: "error \<Rightarrow> 'a io" where
  "throwIO e = (\<lambda>s. (Inl e, s))"

definition bindIO :: "'a io \<Rightarrow> ('a \<Rightarrow> 'b io) \<Rightarrow> 'b io" where
  "bindIO m f = (\<lambda>s. case m s of (Inl e, s') \<Rightarrow> (Inl e, s') | (Inr x, s') \<Rightarrow> f x s')"

definition catchIO :: "'a io \<Rightarrow> (error \<Rightarrow> 'a io) \<Rightarrow> 'a io" where
  "catchIO m h = (\<lambda>s. case m s of (Inl e, s') \<Rightarrow> h e s' | (Inr x, s') \<Rightarrow> (Inr x, s'))"

text \<open>A pure step that may throw.\<close>

definition liftE :: "error + 'a \<Rightarrow> 'a io" where
  "liftE r = (\<lambda>s. (r, s))"

text \<open>\<open>redisClient.getClient()\<close>\<close>

definition getClient :: "unit io" where
  "getClient = (\<lambda>s. if connected s then (Inr (), s)
                     else (Inl (Error ''Redis client not initialized. Call connect() first.''), s))"

text \<open>\<open>this.redis!\<close> in TenantService: \<open>null\<close> until \<open>initialize()\<close> has run.\<close>

definition this_redis :: "unit io" where
  "this_redis = (\<lambda>s. if connected s then (Inr (), s) else (Inl TypeError, s))"

definition redis_get :: "string \<Rightarrow> string option io" where
  "redis_get k = (\<lambda>s.
     if \<not> reachable s then (Inl (RedisError ''unreachable''), s)
     else case vals s k of
            None \<Rightarrow> (Inr None, s)
          | Some (RString v) \<Rightarrow> (Inr (Some v), s)
          | Some (RSet ms) \<Rightarrow> (Inl (RedisError ''WRONGTYPE''), s))"

definition redis_set :: "string \<Rightarrow> string \<Rightarrow> unit io" where
  "redis_set k v = (\<lambda>s.
     if \<not> reachable s then (Inl (RedisError ''unreachable''), s)
     else (Inr (), s\<lparr>vals := (vals s)(k \<mapsto> RString v), ttls := (ttls s)(k := None)\<rparr>))"

definition redis_setEx :: "string \<Rightarrow> nat \<Rightarrow> string \<Rightarrow> unit io" where
  "redis_setEx k ttl v = (\<lambda>s.
     if \<not> reachable s then (Inl (RedisError ''unreachable''), s)
     else (Inr (), s\<lparr>vals := (vals s)(k \<mapsto> RString v), ttls := (ttls s)(k \<mapsto> ttl)\<rparr>))"

definition redis_exists :: "string \<Rightarrow> nat io" where
  "redis_exists k = (\<lambda>s.
     if \<not> reachable s then (Inl (RedisError ''unreachable''), s)
     else (Inr (if vals s k = None then 0 else 1), s))"

definition redis_del :: "string \<Rightarrow> unit io" where
  "redis_del k = (\<lambda>s.
     if \<not> reachable s then (Inl (RedisError ''unreachable''), s)
     else (Inr (), s\<lparr>vals := (vals s)(k := None), ttls := (ttls s)(k := None)\<rparr>))"

definition redis_sAdd :: "string \<Rightarrow> string \<Rightarrow> unit io" where
  "redis_sAdd k m = (\<lambda>s.
     if \<not> reachable s then (Inl (RedisError ''unreachable''), s)
     else case vals s k of
            None \<Rightarrow> (Inr (), s\<lparr>vals := (vals s)(k \<mapsto> RSet [m])\<rparr>)
          | Some (RSet ms) \<Rightarrow>
              (Inr (), s\<lparr>vals := (vals s)(k \<mapsto> RSet (if m \<in> set ms then ms else ms @ [m]))\<rparr>)
          | Some (RString v) \<Rightarrow> (Inl (RedisError ''WRONGTYPE''), s))"

definition redis_sMembers :: "string \<Rightarrow> string list io" where
  "redis_sMembers k = (\<lambda>s.
     if \<not> reachable s then (Inl (RedisError ''unreachable''), s)
     else case vals s k of
            None \<Rightarrow> (Inr [], s)
          | Some (RSet ms) \<Rightarrow> (Inr ms, s)
          | Some (RString v) \<Rightarrow> (Inl (RedisError ''WRONGTYPE''), s))"

text \<open>The keys, as the template strings of the code build them.\<close>

definition blacklistKey :: "string \<Rightarrow> string" where
  "blacklistKey tok = ''token:blacklist:'' @ tok"

definition tenantKey :: "string \<Rightarrow> string" where
  "tenantKey tid = ''tenant:'' @ tid"

definition domainKey :: "string \<Rightarrow> string" where
  "domainKey domain = ''tenant:domain:'' @ domain"

definition userKey :: "string \<Rightarrow> string \<Rightarrow> string" where
  "userKey tid uid = ''tenant:'' @ tid @ '':user:'' @ uid"

definition usersKey :: "string \<Rightarrow> string" where
  "usersKey tid = ''tenant:'' @ tid @ '':users''"

definition emailKey :: "string \<Rightarrow> string \<Rightarrow> string" where
  "emailKey tid email = ''tenant:'' @ tid @ '':user:email:'' @ email"

definition sessionKey :: "string \<Rightarrow> string" where
  "sessionKey sid = ''session:'' @ sid"

text \<open>\<open>JSON.parse(text)\<close>\<close>

definition parseJSON :: "libs \<Rightarrow> string \<Rightarrow> error + json" where
  "parseJSON L text = (case JSON_parse L text of None \<Rightarrow> Inl SyntaxError | Some v \<Rightarrow> Inr v)"

section \<open>The auth plugin: \<open>validate\<close>\<close>

record AuthCredentials =
  user :: json
  cred_tenantId :: string
  scope :: "string list"

datatype validate_result = Invalid | Valid AuthCredentials

record JWTArtifacts =
  payload :: JWTPayload
  token :: string

text \<open>The body of the \<open>try\<close> block of \<open>validate\<close>.\<close>

definition validate_try :: "libs \<Rightarrow> JWTArtifacts \<Rightarrow> validate_result io" where
  "validate_try L artifacts =
     bindIO getClient (\<lambda>_.
     bindIO (redis_exists (blacklistKey (token artifacts))) (\<lambda>isBlacklisted.
       if isBlacklisted \<noteq> 0 then returnIO Invalid
       else
     bindIO (redis_exists (tenantKey (tenantId (payload artifacts)))) (\<lambda>tenantExists.
       if tenantExists = 0 then returnIO Invalid
       else
     bindIO (redis_get (userKey (tenantId (payload artifacts)) (userId (payload artifacts)))) (\<lambda>userData.
       if \<not> truthy_str userData then returnIO Invalid
       else
     bindIO (liftE (parseJSON L (the userData))) (\<lambda>user.
     bindIO (liftE (object_rest ''password'' user)) (\<lambda>userWithoutPassword.
       returnIO (Valid \<lparr>user = userWithoutPassword,
                        cred_tenantId = tenantId (payload artifacts),
                        scope = (if get_prop user ''role'' = Some (JStr ''admin'')
                                 then [''admin'', ''user''] else [''user''])\<rparr>)))))))"

text \<open>\<open>validate\<close>: whatever the body throws is caught and answered \<open>{ isValid: false }\<close>.\<close>

definition validate :: "libs \<Rightarrow> JWTArtifacts \<Rightarrow> validate_result io" where
  "validate L artifacts = catchIO (validate_try L artifacts) (\<lambda>error. returnIO Invalid)"

section \<open>TenantService\<close>

text \<open>
  \<open>uuidv4()\<close> and \<open>new Date().toISOString()\<close> are not functions of the arguments: each
  operation takes the id and the time stamp it draws as \<open>uuid\<close> and \<open>now\<close>.
\<close>

record CreateTenantData =
  name :: string
  domain :: string
  settings :: "json option"

record CreateUserData =
  username :: string
  email :: string
  password :: string
  role_opt :: "string option"

text \<open>The object \<open>createTenant\<close> builds and stores.\<close>

definition new_tenant :: "string \<Rightarrow> string \<Rightarrow> CreateTenantData \<Rightarrow> json" where
  "new_tenant uuid now tenantData =
     JObj [(''tenantId'', JStr uuid),
           (''name'', JStr (name tenantData)),
           (''domain'', JStr (domain tenantData)),
           (''status'', JStr ''active''),
           (''createdAt'', JStr now),
           (''settings'', if truthy (settings tenantData)
                          then the (settings tenantData) else JObj [])]"

definition createTenant :: "libs \<Rightarrow> string \<Rightarrow> string \<Rightarrow> CreateTenantData \<Rightarrow> json io" where
  "createTenant L uuid now tenantData =
     (let tenant = new_tenant uuid now tenantData
      in
      bindIO this_redis (\<lambda>_.
      bindIO (redis_set (tenantKey uuid) (JSON_stringify L tenant)) (\<lambda>_.
      bindIO (redis_sAdd ''tenants:all'' uuid) (\<lambda>_.
      bindIO (if domain tenantData \<noteq> []
              then redis_set (domainKey (domain tenantData)) uuid
              else returnIO ()) (\<lambda>_.
      returnIO tenant)))))"

text \<open>\<open>Promise<Tenant | null>\<close>: \<open>null\<close> is \<open>JNull\<close>.\<close>

definition getTenant :: "libs \<Rightarrow> string \<Rightarrow> json io" where
  "getTenant L tid =
     bindIO this_redis (\<lambda>_.
     bindIO (redis_get (tenantKey tid)) (\<lambda>tenantData.
       if \<not> truthy_str tenantData then returnIO JNull
       else liftE (parseJSON L (the tenantData))))"

definition getTenantByDomain :: "libs \<Rightarrow> string \<Rightarrow> json io" where
  "getTenantByDomain L dname =
     bindIO this_redis (\<lambda>_.
     bindIO (redis_get (domainKey dname)) (\<lambda>tid.
       if \<not> truthy_str tid then returnIO JNull
       else getTenant L (the tid)))"

text \<open>\<open>{ ...tenant, ...updates, tenantId, updatedAt: new Date().toISOString() }\<close>\<close>

definition updated_tenant :: "string \<Rightarrow> string \<Rightarrow> json \<Rightarrow> json \<Rightarrow> json" where
  "updated_tenant now tid tenant updates =
     JObj (set_props [(''tenantId'', Some (JStr tid)), (''updatedAt'', Some (JStr now))]
             (spread (spread_props tenant) (spread_props updates)))"

definition updateTenant :: "libs \<Rightarrow> string \<Rightarrow> string \<Rightarrow> json \<Rightarrow> json io" where
  "updateTenant L now tid updates =
     bindIO (getTenant L tid) (\<lambda>tenant.
       if \<not> truthy (Some tenant) then returnIO JNull
       else
         (let updatedTenant = updated_tenant now tid tenant updates
          in bindIO (redis_set (tenantKey tid) (JSON_stringify L updatedTenant)) (\<lambda>_.
             returnIO updatedTenant)))"

text \<open>The object \<open>createUser\<close> builds and stores, the hashed password in it.\<close>

definition new_user :: "libs \<Rightarrow> string \<Rightarrow> string \<Rightarrow> string \<Rightarrow> CreateUserData \<Rightarrow> json" where
  "new_user L uuid now tid userData =
     (let hashedPassword = bcrypt_hash L (password userData) 10
      in JObj [(''userId'', JStr uuid),
               (''tenantId'', JStr tid),
               (''username'', JStr (username userData)),
               (''email'', JStr (email userData)),
               (''password'', JStr hashedPassword),
               (''role'', JStr (if truthy_str (role_opt userData)
                                then the (role_opt userData) else ''user'')),
               (''status'', JStr ''active''),
               (''createdAt'', JStr now)])"

definition createUser :: "libs \<Rightarrow> string \<Rightarrow> string \<Rightarrow> string \<Rightarrow> CreateUserData \<Rightarrow> json io" where
  "createUser L uuid now tid userData =
     (let usr = new_user L uuid now tid userData
      in
      bindIO this_redis (\<lambda>_.
      bindIO (redis_set (userKey tid uuid) (JSON_stringify L usr)) (\<lambda>_.
      bindIO (redis_sAdd (usersKey tid) uuid) (\<lambda>_.
      bindIO (redis_set (emailKey tid (email userData)) uuid) (\<lambda>_.
      liftE (object_rest ''password'' usr))))))"

definition getUserByEmail :: "libs \<Rightarrow> string \<Rightarrow> string \<Rightarrow> json io" where
  "getUserByEmail L tid mail =
     bindIO this_redis (\<lambda>_.
     bindIO (redis_get (emailKey tid mail)) (\<lambda>uid.
       if \<not> truthy_str uid then returnIO JNull
       else
     bindIO (redis_get (userKey tid (the uid))) (\<lambda>userData.
       if truthy_str userData then liftE (parseJSON L (the userData)) else returnIO JNull)))"

definition getUser :: "libs \<Rightarrow> string \<Rightarrow> string \<Rightarrow> json io" where
  "getUser L tid uid =
     bindIO this_redis (\<lambda>_.
     bindIO (redis_get (userKey tid uid)) (\<lambda>userData.
       if \<not> truthy_str userData then returnIO JNull
       else
     bindIO (liftE (parseJSON L (the userData))) (\<lambda>usr.
     liftE (object_rest ''password'' usr))))"

definition verifyPassword :: "libs \<Rightarrow> string \<Rightarrow> string \<Rightarrow> bool io" where
  "verifyPassword L pw hashedPassword = returnIO (bcrypt_compare L pw hashedPassword)"

text \<open>The \<open>for\<close> loop of \<open>getAllUsers\<close>, over the ids still to load.\<close>

fun getAllUsers_loop :: "libs \<Rightarrow> string \<Rightarrow> string list \<Rightarrow> json list \<Rightarrow> json list io" where
  "getAllUsers_loop L tid [] users = returnIO users"
| "getAllUsers_loop L tid (uid # userIds) users =
     bindIO (getUser L tid uid) (\<lambda>usr.
       getAllUsers_loop L tid userIds (if truthy (Some usr) then users @ [usr] else users))"

definition getAllUsers :: "libs \<Rightarrow> string \<Rightarrow> json list io" where
  "getAllUsers L tid =
     bindIO this_redis (\<lambda>_.
     bindIO (redis_sMembers (usersKey tid)) (\<lambda>userIds.
     getAllUsers_loop L tid userIds []))"

text \<open>\<open>{ ...user, ...updates, userId, tenantId, updatedAt: new Date().toISOString() }\<close>\<close>

definition updated_user :: "string \<Rightarrow> string \<Rightarrow> string \<Rightarrow> json \<Rightarrow> json \<Rightarrow> json" where
  "updated_user now tid uid usr updates =
     JObj (set_props [(''userId'', Some (JStr uid)), (''tenantId'', Some (JStr tid)),
                      (''updatedAt'', Some (JStr now))]
             (spread (spread_props usr) (spread_props updates)))"

definition updateUser :: "libs \<Rightarrow> string \<Rightarrow> string \<Rightarrow> string \<Rightarrow> json \<Rightarrow> json io" where
  "updateUser L now tid uid updates =
     bindIO this_redis (\<lambda>_.
     bindIO (redis_get (userKey tid uid)) (\<lambda>userData.
       if \<not> truthy_str userData then returnIO JNull
       else
     bindIO (liftE (parseJSON L (the userData))) (\<lambda>usr.
       (let updatedUser = updated_user now tid uid usr updates
        in bindIO (redis_set (userKey tid uid) (JSON_stringify L updatedUser)) (\<lambda>_.
           liftE (object_rest ''password'' updatedUser))))))"

definition blacklistToken :: "string \<Rightarrow> nat option \<Rightarrow> unit io" where
  "blacklistToken tok expiresIn =
     bindIO this_redis (\<lambda>_.
     redis_setEx (blacklistKey tok) (case expiresIn of None \<Rightarrow> 14400 | Some n \<Rightarrow> n) ''true'')"

definition isTokenBlacklisted :: "string \<Rightarrow> bool io" where
  "isTokenBlacklisted tok =
     bindIO this_redis (\<lambda>_.
     bindIO (redis_exists (blacklistKey tok)) (\<lambda>n. returnIO (n = 1)))"

record SessionData =
  loginTime :: "string option"
  userAgent :: "string option"

definition createSession :: "libs \<Rightarrow> string \<Rightarrow> string \<Rightarrow> string \<Rightarrow> string \<Rightarrow> SessionData \<Rightarrow> json io" where
  "createSession L uuid now tid uid sessionData =
     (let session = JObj (set_props
                      [(''sessionId'', Some (JStr uuid)),
                       (''tenantId'', Some (JStr tid)),
                       (''userId'', Some (JStr uid)),
                       (''loginTime'', Some (JStr (if truthy_str (loginTime sessionData)
                                                   then the (loginTime sessionData) else now))),
                       (''userAgent'', map_option JStr (userAgent sessionData)),
                       (''createdAt'', Some (JStr now))] [])
      in
      bindIO this_redis (\<lambda>_.
      bindIO (redis_setEx (sessionKey uuid) 14400 (JSON_stringify L session)) (\<lambda>_.
      returnIO session)))"

definition getSession :: "libs \<Rightarrow> string \<Rightarrow> json io" where
  "getSession L sid =
     bindIO this_redis (\<lambda>_.
     bindIO (redis_get (sessionKey sid)) (\<lambda>sessionData.
       if truthy_str sessionData then liftE (parseJSON L (the sessionData)) else returnIO JNull))"

definition deleteSession :: "string \<Rightarrow> unit io" where
  "deleteSession sid = bindIO this_redis (\<lambda>_. redis_del (sessionKey sid))"

section \<open>Routes: authentication and users\<close>

definition jwt_key :: "libs \<Rightarrow> string" where
  "jwt_key L = (if truthy_str (env_JWT_SECRET L) then the (env_JWT_SECRET L)
                else ''your-secret-key-change-in-production'')"

definition generateToken :: "libs \<Rightarrow> json \<Rightarrow> string \<Rightarrow> string" where
  "generateToken L usr tid =
     JWT_token_generate L
       (JObj (set_props [(''aud'', Some (JStr ''urn:audience:api'')),
                         (''iss'', Some (JStr ''urn:issuer:api'')),
                         (''userId'', get_prop usr ''userId''),
                         (''tenantId'', Some (JStr tid)),
                         (''role'', get_prop usr ''role'')] []))
       (jwt_key L) 14400"

text \<open>
  The \<open>jwt\<close> strategy on a bearer token: the library decodes and verifies it, then
  \<open>validate\<close> decides; a token turned down is answered 401.
\<close>

definition jwt_strategy :: "libs \<Rightarrow> string \<Rightarrow> AuthCredentials io" where
  "jwt_strategy L tok =
     (case JWT_verify L tok of
        None \<Rightarrow> throwIO (Boom 401 ''Invalid token'')
      | Some p \<Rightarrow>
          bindIO (validate L \<lparr>payload = p, token = tok\<rparr>) (\<lambda>r.
            case r of
              Invalid \<Rightarrow> throwIO (Boom 401 ''Invalid credentials'')
            | Valid credentials \<Rightarrow> returnIO credentials))"

record response =
  code :: nat
  body :: json

text \<open>The \<open>catch\<close> of the handlers that pass a Boom error on and wrap any other.\<close>

definition boom_or :: "string \<Rightarrow> error \<Rightarrow> 'a io" where
  "boom_or msg err = (if isBoom err then throwIO err else throwIO (Boom 500 msg))"

text \<open>\<open>{ tenantId: tenant.tenantId, name: tenant.name, domain: tenant.domain }\<close>\<close>

definition tenant_summary :: "json \<Rightarrow> json" where
  "tenant_summary tenant =
     JObj (set_props [(''tenantId'', get_prop tenant ''tenantId''),
                      (''name'', get_prop tenant ''name''),
                      (''domain'', get_prop tenant ''domain'')] [])"

record RegisterPayload =
  tenantName :: string
  reg_domain :: string
  reg_username :: string
  reg_email :: string
  reg_password :: string

record LoginPayload =
  login_email :: string
  login_password :: string
  login_tenantId :: "string option"
  login_domain :: "string option"

text \<open>
  \<open>POST /api/auth/register\<close>. \<open>createTenant\<close> draws the id and time stamp \<open>tdrawn\<close>,
  \<open>createUser\<close> draws \<open>udrawn\<close>.
\<close>

definition register_handler ::
  "libs \<Rightarrow> string \<times> string \<Rightarrow> string \<times> string \<Rightarrow> RegisterPayload \<Rightarrow> response io" where
  "register_handler L tdrawn udrawn pl =
     catchIO
       (bindIO (getTenantByDomain L (reg_domain pl)) (\<lambda>existingTenant.
          if truthy (Some existingTenant)
          then throwIO (Boom 409 ''Tenant with this domain already exists'')
          else
        bindIO (createTenant L (fst tdrawn) (snd tdrawn)
                  \<lparr>name = tenantName pl, domain = reg_domain pl, settings = None\<rparr>) (\<lambda>tenant.
        bindIO (createUser L (fst udrawn) (snd udrawn) (string_prop tenant ''tenantId'')
                  \<lparr>username = reg_username pl, email = reg_email pl,
                   password = reg_password pl, role_opt = Some ''admin''\<rparr>) (\<lambda>usr.
          (let tok = generateToken L usr (string_prop tenant ''tenantId'')
           in returnIO \<lparr>code = 201,
                         body = JObj [(''message'', JStr ''Tenant and admin user created successfully''),
                                      (''tenant'', tenant_summary tenant),
                                      (''user'', usr),
                                      (''token'', JStr tok)]\<rparr>)))))
       (boom_or ''Failed to register tenant'')"

text \<open>
  \<open>POST /api/auth/login\<close>; \<open>uuid\<close> and \<open>now\<close> are drawn for the session, \<open>agent\<close> is
  the \<open>user-agent\<close> header.
\<close>

definition login_handler ::
  "libs \<Rightarrow> string \<Rightarrow> string \<Rightarrow> LoginPayload \<Rightarrow> string option \<Rightarrow> response io" where
  "login_handler L uuid now pl agent =
     catchIO
       (bindIO (if truthy_str (login_tenantId pl) then getTenant L (the (login_tenantId pl))
                else if truthy_str (login_domain pl) then getTenantByDomain L (the (login_domain pl))
                else returnIO JNull) (\<lambda>tenant.
          if \<not> truthy (Some tenant) then throwIO (Boom 404 ''Tenant not found'')
          else if get_prop tenant ''status'' \<noteq> Some (JStr ''active'')
          then throwIO (Boom 403 ''Tenant is not active'')
          else
        bindIO (getUserByEmail L (string_prop tenant ''tenantId'') (login_email pl)) (\<lambda>usr.
          if \<not> truthy (Some usr) then throwIO (Boom 401 ''Invalid credentials'')
          else
        bindIO (case get_prop usr ''password'' of
                  Some (JStr h) \<Rightarrow> verifyPassword L (login_password pl) h
                | _ \<Rightarrow> throwIO (Error ''data and hash arguments required'')) (\<lambda>isValid.
          if \<not> isValid then throwIO (Boom 401 ''Invalid credentials'')
          else if get_prop usr ''status'' \<noteq> Some (JStr ''active'')
          then throwIO (Boom 403 ''User account is not active'')
          else
        bindIO (liftE (object_rest ''password'' usr)) (\<lambda>userWithoutPassword.
          (let tok = generateToken L userWithoutPassword (string_prop tenant ''tenantId'')
           in
        bindIO (createSession L uuid now (string_prop tenant ''tenantId'') (string_prop usr ''userId'')
                  \<lparr>loginTime = Some now, userAgent = agent\<rparr>) (\<lambda>session.
          returnIO \<lparr>code = 200,
                     body = JObj (set_props
                              [(''message'', Some (JStr ''Login successful'')),
                               (''token'', Some (JStr tok)),
                               (''user'', Some userWithoutPassword),
                               (''tenant'', Some (tenant_summary tenant)),
                               (''sessionId'', get_prop session ''sessionId'')] [])\<rparr>)))))))
       (boom_or ''Failed to login'')"

text \<open>
  The \<open>scope\<close> a route asks for, checked by the framework once the strategy has
  produced the credentials.
\<close>

definition require_scope :: "string \<Rightarrow> AuthCredentials \<Rightarrow> unit io" where
  "require_scope tag credentials =
     (if tag \<in> set (scope credentials) then returnIO ()
      else throwIO (Boom 403 ''Insufficient scope''))"

text \<open>\<open>POST /api/users\<close>, the handler.\<close>

definition create_user_handler ::
  "libs \<Rightarrow> string \<Rightarrow> string \<Rightarrow> AuthCredentials \<Rightarrow> CreateUserData \<Rightarrow> response io" where
  "create_user_handler L uuid now credentials userData =
     catchIO
       (bindIO (getUserByEmail L (cred_tenantId credentials) (email userData)) (\<lambda>existingUser.
          if truthy (Some existingUser)
          then throwIO (Boom 409 ''User with this email already exists in tenant'')
          else
        bindIO (createUser L uuid now (cred_tenantId credentials) userData) (\<lambda>usr.
          returnIO \<lparr>code = 201,
                     body = JObj [(''message'', JStr ''User created successfully''),
                                  (''user'', usr)]\<rparr>)))
       (boom_or ''Failed to create user'')"

text \<open>\<open>POST /api/users\<close>, the route: \<open>scope: ['admin']\<close>, then the handler.\<close>

definition create_user_route ::
  "libs \<Rightarrow> string \<Rightarrow> string \<Rightarrow> AuthCredentials \<Rightarrow> CreateUserData \<Rightarrow> response io" where
  "create_user_route L uuid now credentials userData =
     bindIO (require_scope ''admin'' credentials) (\<lambda>_.
     create_user_handler L uuid now credentials userData)"

section \<open>OllamaService and the LLM routes\<close>

text \<open>
  What a call of the axios client comes to: the data of the response, an axios error
  with its message (no connection, a status outside 2xx, the 120 s timeout), or
  something else thrown. The upstream is a function from the request body to that.
\<close>

datatype axios_result = AxiosData json | AxiosError string | Thrown error

text \<open>
  A call of the service returns its result and the bodies posted to the upstream,
  in order. The log lines read \<open>request.messages.length\<close> before the call and
  \<open>response.data.done\<close> after it: a TypeError when \<open>messages\<close> is missing or the
  data is \<open>null\<close>.
\<close>

definition ollama_chat :: "(json \<Rightarrow> axios_result) \<Rightarrow> json \<Rightarrow> string \<Rightarrow> (error + json) \<times> json list" where
  "ollama_chat post request tid =
     (if get_prop request ''messages'' = None \<or> get_prop request ''messages'' = Some JNull
      then (Inl TypeError, [])
      else
        (let body = JObj (set_props [(''stream'', Some (JBool False))] (spread_props request))
         in (case post body of
               AxiosData d \<Rightarrow> if d = JNull then Inl TypeError else Inr d
             | AxiosError m \<Rightarrow> Inl (Error (''Ollama request failed: '' @ m))
             | Thrown e \<Rightarrow> Inl e,
             [body])))"

definition ollama_listModels :: "axios_result \<Rightarrow> error + json" where
  "ollama_listModels tags =
     (case tags of
        AxiosData d \<Rightarrow> if d = JNull then Inl TypeError else Inr d
      | AxiosError m \<Rightarrow> Inl (Error (''Failed to fetch models: '' @ m))
      | Thrown e \<Rightarrow> Inl e)"

text \<open>The handler of \<open>POST /api/llm/chat\<close>, with its \<open>catch\<close>.\<close>

definition chat_handler ::
  "(json \<Rightarrow> axios_result) \<Rightarrow> AuthCredentials \<Rightarrow> (string \<Rightarrow> string option) \<Rightarrow> json \<Rightarrow>
   (error + json) \<times> json list" where
  "chat_handler post credentials headers chatRequest =
     (let headerTenantId = headers ''x-tenant-id'';
          tried =
            (if headerTenantId \<noteq> Some (cred_tenantId credentials)
             then (Inl (Boom 403 ''Tenant ID does not match authenticated user''), [])
             else
               (let chatRequest' =
                      (if truthy (get_prop chatRequest ''stream'')
                       then JObj (set_props [(''stream'', Some (JBool False))] (spread_props chatRequest))
                       else chatRequest)
                in case ollama_chat post chatRequest' (cred_tenantId credentials) of
                     (Inl e, calls) \<Rightarrow> (Inl e, calls)
                   | (Inr resp, calls) \<Rightarrow>
                       (Inr (JObj (set_props
                                [(''tenant_id'', Some (JStr (cred_tenantId credentials))),
                                 (''user_id'', get_prop (user credentials) ''userId'')]
                                (spread_props resp))), calls)))
      in case tried of
           (Inl e, calls) \<Rightarrow>
             (if isBoom e then (Inl e, calls)
              else (Inl (Boom 500 ''Failed to process chat request''), calls))
         | (Inr r, calls) \<Rightarrow> (Inr r, calls))"

text \<open>
  The \<open>headers\<close> schema of both LLM routes: \<open>x-tenant-id\<close> a required UUID string,
  \<open>authorization\<close> a required string, any other header allowed.
\<close>

definition llm_headers_valid :: "libs \<Rightarrow> (string \<Rightarrow> string option) \<Rightarrow> bool" where
  "llm_headers_valid L headers =
     ((case headers ''x-tenant-id'' of None \<Rightarrow> False | Some v \<Rightarrow> v \<noteq> [] \<and> Joi_uuid L v) \<and>
      (case headers ''authorization'' of None \<Rightarrow> False | Some v \<Rightarrow> v \<noteq> []))"

text \<open>
  \<open>POST /api/llm/chat\<close> for a request the strategy has given credentials: the
  framework validates headers and payload (400 on failure), runs the handler and
  validates what it returns against the response schema (500 on failure).
\<close>

definition chat_route ::
  "libs \<Rightarrow> (json \<Rightarrow> axios_result) \<Rightarrow> AuthCredentials \<Rightarrow> (string \<Rightarrow> string option) \<Rightarrow> json \<Rightarrow>
   (error + json) \<times> json list" where
  "chat_route L post credentials headers pl =
     (if \<not> llm_headers_valid L headers then (Inl (Boom 400 ''Invalid request headers input''), [])
      else case Joi_payload L ''chatRequestSchema'' pl of
             None \<Rightarrow> (Inl (Boom 400 ''Invalid request payload input''), [])
           | Some chatRequest \<Rightarrow>
               (case chat_handler post credentials headers (JObj chatRequest) of
                  (Inl e, calls) \<Rightarrow> (Inl e, calls)
                | (Inr r, calls) \<Rightarrow>
                    (if Joi_response L r then (Inr r, calls)
                     else (Inl (Boom 500 ''An internal server error occurred''), calls))))"

text \<open>The handler of \<open>GET /api/llm/models\<close>; \<open>tags\<close> is what \<open>GET /api/tags\<close> comes to.\<close>

definition models_handler ::
  "axios_result \<Rightarrow> AuthCredentials \<Rightarrow> (string \<Rightarrow> string option) \<Rightarrow> (error + json) \<times> nat" where
  "models_handler tags credentials headers =
     (let headerTenantId = headers ''x-tenant-id'';
          tried =
            (if headerTenantId \<noteq> Some (cred_tenantId credentials)
             then (Inl (Boom 403 ''Tenant ID does not match authenticated user''), 0)
             else case ollama_listModels tags of
                    Inl e \<Rightarrow> (Inl e, 1)
                  | Inr models \<Rightarrow>
                      (Inr (JObj (set_props [(''tenant_id'', Some (JStr (cred_tenantId credentials)))]
                                    (spread_props models))), 1))
      in case tried of
           (Inl e, calls) \<Rightarrow>
             (if isBoom e then (Inl e, calls)
              else (Inl (Boom 500 ''Failed to fetch models''), calls))
         | (Inr r, calls) \<Rightarrow> (Inr r, calls))"

definition models_route ::
  "libs \<Rightarrow> axios_result \<Rightarrow> AuthCredentials \<Rightarrow> (string \<Rightarrow> string option) \<Rightarrow> (error + json) \<times> nat" where
  "models_route L tags credentials headers =
     (if \<not> llm_headers_valid L headers then (Inl (Boom 400 ''Invalid request headers input''), 0)
      else models_handler tags credentials headers)"

section \<open>Predicates on a store\<close>

text \<open>The raw token string has a blacklist entry.\<close>

definition blacklisted :: "redis \<Rightarrow> string \<Rightarrow> bool" where
  "blacklisted s tok = (vals s (blacklistKey tok) \<noteq> None)"

text \<open>The tenant id has a tenant record.\<close>

definition tenant_exists :: "redis \<Rightarrow> string \<Rightarrow> bool" where
  "tenant_exists s tid = (vals s (tenantKey tid) \<noteq> None)"

text \<open>The user id has a user record under the tenant: the key is there and not empty.\<close>

definition user_exists :: "redis \<Rightarrow> string \<Rightarrow> string \<Rightarrow> bool" where
  "user_exists s tid uid =
     (vals s (userKey tid uid) \<noteq> None \<and> vals s (userKey tid uid) \<noteq> Some (RString []))"

text \<open>The properties of the object a stored text stands for, if it stands for one.\<close>

definition parsed_object :: "libs \<Rightarrow> string \<Rightarrow> (string \<times> json) list option" where
  "parsed_object L raw = (case JSON_parse L raw of Some (JObj fs) \<Rightarrow> Some fs | _ \<Rightarrow> None)"

text \<open>
  Two stored values differ in nothing but a \<open>status\<close> field: they are the same, or
  both are the text of an object and the objects agree once \<open>status\<close> is left out.
\<close>

fun status_variant_val :: "libs \<Rightarrow> rval option \<Rightarrow> rval option \<Rightarrow> bool" where
  "status_variant_val L (Some (RString a)) (Some (RString b)) =
     (a = b \<or>
      (a \<noteq> [] \<and> b \<noteq> [] \<and> parsed_object L a \<noteq> None \<and>
       map_option (AList.delete ''status'') (parsed_object L a) =
       map_option (AList.delete ''status'') (parsed_object L b)))"
| "status_variant_val L v w = (v = w)"

text \<open>Two store states differ only in \<open>status\<close> fields of stored records.\<close>

definition status_variant :: "libs \<Rightarrow> redis \<Rightarrow> redis \<Rightarrow> bool" where
  "status_variant L s s' =
     (connected s = connected s' \<and> reachable s = reachable s' \<and>
      (\<forall>k. status_variant_val L (vals s k) (vals s' k)))"

text \<open>The library reads back the value it wrote, and its text is not empty.\<close>

definition json_roundtrip :: "libs \<Rightarrow> json \<Rightarrow> bool" where
  "json_roundtrip L v = (JSON_stringify L v \<noteq> [] \<and> JSON_parse L (JSON_stringify L v) = Some v)"

text \<open>
  The payload of a decoded token: the claims it was generated from, as far as the
  code reads them (the library adds \<open>iat\<close> and \<open>exp\<close>).
\<close>

definition text_claim :: "json \<Rightarrow> string \<Rightarrow> string option" where
  "text_claim claims k = (case get_prop claims k of Some (JStr v) \<Rightarrow> Some v | _ \<Rightarrow> None)"

definition claims_payload :: "json \<Rightarrow> JWTPayload option" where
  "claims_payload claims =
     (case text_claim claims ''aud'' of None \<Rightarrow> None | Some a \<Rightarrow>
     (case text_claim claims ''iss'' of None \<Rightarrow> None | Some i \<Rightarrow>
     (case text_claim claims ''userId'' of None \<Rightarrow> None | Some u \<Rightarrow>
     (case text_claim claims ''tenantId'' of None \<Rightarrow> None | Some t \<Rightarrow>
     (case text_claim claims ''role'' of None \<Rightarrow> None | Some r \<Rightarrow>
        Some \<lparr>aud = a, iss = i, userId = u, tenantId = t, role = r\<rparr>)))))"

text \<open>
  The library verifies the tokens it generates. A token generated from any claims,
  with the key the strategy is configured with and the life of 4 hours, is decoded,
  when verified at once, to the payload those claims make: its signature is good,
  it is neither expired nor too old, and the strategy checks neither \<open>aud\<close> nor \<open>iss\<close>.
\<close>

definition jwt_roundtrip :: "libs \<Rightarrow> bool" where
  "jwt_roundtrip L =
     (\<forall>claims p. claims_payload claims = Some p \<longrightarrow>
        JWT_verify L (JWT_token_generate L claims (jwt_key L) 14400) = Some p)"

text \<open>
  The domain is registered: the index names a tenant id and the record under that id
  loads (it is there, parses, and is not \<open>null\<close> or another falsy value).
\<close>

definition domain_registered :: "libs \<Rightarrow> redis \<Rightarrow> string \<Rightarrow> bool" where
  "domain_registered L s dname =
     (case vals s (domainKey dname) of
        Some (RString tid) \<Rightarrow>
          tid \<noteq> [] \<and>
          (case vals s (tenantKey tid) of
             Some (RString raw) \<Rightarrow> raw \<noteq> [] \<and> truthy (JSON_parse L raw)
           | _ \<Rightarrow> False)
      | _ \<Rightarrow> False)"

text \<open>
  The email is registered within the tenant: the index names a user id and the record
  under that id loads.
\<close>

definition email_registered :: "libs \<Rightarrow> redis \<Rightarrow> string \<Rightarrow> string \<Rightarrow> bool" where
  "email_registered L s tid mail =
     (case vals s (emailKey tid mail) of
        Some (RString uid) \<Rightarrow>
          uid \<noteq> [] \<and>
          (case vals s (userKey tid uid) of
             Some (RString raw) \<Rightarrow> raw \<noteq> [] \<and> truthy (JSON_parse L raw)
           | _ \<Rightarrow> False)
      | _ \<Rightarrow> False)"

text \<open>The key is free or holds a set, so that \<open>sAdd\<close> on it goes through.\<close>

definition no_string_at :: "redis \<Rightarrow> string \<Rightarrow> bool" where
  "no_string_at s k = (case vals s k of Some (RString v) \<Rightarrow> False | _ \<Rightarrow> True)"

text \<open>An id has the shape of a UUID as far as the keys care: no colon in it.\<close>

definition colon_free :: "string \<Rightarrow> bool" where
  "colon_free x = (CHR '':'' \<notin> set x)"

text \<open>The user ids in the user index of a tenant.\<close>

definition members :: "redis \<Rightarrow> string \<Rightarrow> string list" where
  "members s tid = (case vals s (usersKey tid) of Some (RSet ms) \<Rightarrow> ms | _ \<Rightarrow> [])"

text \<open>The \<open>email\<close> of the record stored for a user, when the record loads.\<close>

definition stored_email :: "libs \<Rightarrow> redis \<Rightarrow> string \<Rightarrow> string \<Rightarrow> json option" where
  "stored_email L s tid uid =
     (case vals s (userKey tid uid) of
        Some (RString raw) \<Rightarrow>
          if raw = [] then None
          else (case JSON_parse L raw of Some u \<Rightarrow> get_prop u ''email'' | None \<Rightarrow> None)
      | _ \<Rightarrow> None)"

text \<open>
  The email index is consistent: the email of every user in the user index of a
  tenant is indexed, within the tenant, to that user. Tenant and user ids have the
  shape the service gives them (non-empty, no colon).
\<close>

definition email_index_consistent :: "libs \<Rightarrow> redis \<Rightarrow> bool" where
  "email_index_consistent L s =
     (\<forall>tid uid m. colon_free tid \<and> colon_free uid \<and> uid \<noteq> [] \<and>
        uid \<in> set (members s tid) \<and> stored_email L s tid uid = Some (JStr m) \<longrightarrow>
        vals s (emailKey tid m) = Some (RString uid))"

text \<open>Within a tenant, no two users of the user index have the same email.\<close>

definition emails_unique :: "libs \<Rightarrow> redis \<Rightarrow> bool" where
  "emails_unique L s =
     (\<forall>tid u1 u2 m. colon_free tid \<and>
        colon_free u1 \<and> u1 \<noteq> [] \<and> u1 \<in> set (members s tid) \<and>
        colon_free u2 \<and> u2 \<noteq> [] \<and> u2 \<in> set (members s tid) \<and>
        stored_email L s tid u1 = Some (JStr m) \<and> stored_email L s tid u2 = Some (JStr m) \<longrightarrow>
        u1 = u2)"

text \<open>A value returned to a caller has no \<open>password\<close> property.\<close>

definition no_password :: "json \<Rightarrow> bool" where
  "no_password v = (case v of JObj fs \<Rightarrow> ''password'' \<notin> fst ` set fs | _ \<Rightarrow> True)"

text \<open>The credentials \<open>validate\<close> builds from the claims and the stored user.\<close>

definition principal :: "JWTArtifacts \<Rightarrow> json \<Rightarrow> AuthCredentials" where
  "principal a usr =
     \<lparr>user = JObj (AList.delete ''password'' (spread_props usr)),
      cred_tenantId = tenantId (payload a),
      scope = (if get_prop usr ''role'' = Some (JStr ''admin'')
               then [''admin'', ''user''] else [''user''])\<rparr>"

section \<open>Example data\<close>

text \<open>
  Stand-ins for the libraries, for running the model on concrete requests: a
  serializer without escapes, a parser that knows the documents it is given, tokens
  that carry their claims in the clear.
\<close>

definition quoted :: "string \<Rightarrow> string" where
  "quoted s = CHR 0x22 # s @ [CHR 0x22]"

fun stringify_plain :: "json \<Rightarrow> string" where
  "stringify_plain JNull = ''null''"
| "stringify_plain (JBool b) = (if b then ''true'' else ''false'')"
| "stringify_plain (JNum n) = n"
| "stringify_plain (JStr s) = quoted s"
| "stringify_plain (JArr xs) = ''['' @ join_comma (map stringify_plain xs) @ '']''"
| "stringify_plain (JObj fs) =
     ''{'' @ join_comma (map (\<lambda>kv. quoted (fst kv) @ '':'' @ stringify_plain (snd kv)) fs) @ ''}''"

definition parse_table :: "json list \<Rightarrow> string \<Rightarrow> json option" where
  "parse_table docs text = map_of (map (\<lambda>j. (stringify_plain j, j)) docs) text"

definition ex_libs :: "json list \<Rightarrow> (string \<times> JWTPayload) list \<Rightarrow> libs" where
  "ex_libs docs tokens =
     \<lparr>JSON_parse = parse_table docs,
      JSON_stringify = stringify_plain,
      JWT_token_generate = (\<lambda>claims key ttl. ''jwt.'' @ stringify_plain claims),
      JWT_verify = map_of tokens,
      bcrypt_hash = (\<lambda>pw cost. ''hash:'' @ pw),
      bcrypt_compare = (\<lambda>pw h. h = ''hash:'' @ pw),
      Joi_uuid = (\<lambda>v. length v = 36),
      Joi_payload = (\<lambda>schema pl. case pl of JObj fs \<Rightarrow> Some fs | _ \<Rightarrow> None),
      Joi_response = (\<lambda>r. True),
      env_JWT_SECRET = None\<rparr>"

definition ex_tid :: string where
  "ex_tid = ''11111111-1111-4111-8111-111111111111''"

definition ex_uid :: string where
  "ex_uid = ''22222222-2222-4222-8222-222222222222''"

definition ex_tenant :: json where
  "ex_tenant = JObj [(''tenantId'', JStr ex_tid), (''name'', JStr ''Acme''),
                     (''domain'', JStr ''acme.com''), (''status'', JStr ''active''),
                     (''createdAt'', JStr ''2024-01-01T00:00:00.000Z''), (''settings'', JObj [])]"

definition ex_user :: json where
  "ex_user = JObj [(''userId'', JStr ex_uid), (''tenantId'', JStr ex_tid),
                   (''username'', JStr ''alice''), (''email'', JStr ''alice@acme.com''),
                   (''password'', JStr ''hash:SecurePass123''), (''role'', JStr ''admin''),
                   (''status'', JStr ''active''), (''createdAt'', JStr ''2024-01-01T00:00:00.000Z'')]"

text \<open>A store with one tenant and its admin, as \<open>register\<close> leaves it.\<close>

definition ex_store :: redis where
  "ex_store =
     \<lparr>connected = True, reachable = True,
      vals = [tenantKey ex_tid \<mapsto> RString (stringify_plain ex_tenant),
              ''tenants:all'' \<mapsto> RSet [ex_tid],
              domainKey ''acme.com'' \<mapsto> RString ex_tid,
              userKey ex_tid ex_uid \<mapsto> RString (stringify_plain ex_user),
              usersKey ex_tid \<mapsto> RSet [ex_uid],
              emailKey ex_tid ''alice@acme.com'' \<mapsto> RString ex_uid],
      ttls = Map.empty\<rparr>"

definition ex_payload :: JWTPayload where
  "ex_payload = \<lparr>aud = ''urn:audience:api'', iss = ''urn:issuer:api'',
                  userId = ex_uid, tenantId = ex_tid, role = ''admin''\<rparr>"

text \<open>The token \<open>generateToken\<close> issues for the example user, and its artifacts.\<close>

definition ex_token :: string where
  "ex_token = generateToken (ex_libs [] []) ex_user ex_tid"

definition ex_artifacts :: JWTArtifacts where
  "ex_artifacts = \<lparr>payload = ex_payload, token = ex_token\<rparr>"

text \<open>The same records with another \<open>status\<close>, and the store that holds them instead.\<close>

definition ex_tenant_suspended :: json where
  "ex_tenant_suspended =
     JObj [(''tenantId'', JStr ex_tid), (''name'', JStr ''Acme''),
           (''domain'', JStr ''acme.com''), (''status'', JStr ''suspended''),
           (''createdAt'', JStr ''2024-01-01T00:00:00.000Z''), (''settings'', JObj [])]"

definition ex_user_inactive :: json where
  "ex_user_inactive =
     JObj [(''userId'', JStr ex_uid), (''tenantId'', JStr ex_tid),
           (''username'', JStr ''alice''), (''email'', JStr ''alice@acme.com''),
           (''password'', JStr ''hash:SecurePass123''), (''role'', JStr ''admin''),
           (''status'', JStr ''inactive''), (''createdAt'', JStr ''2024-01-01T00:00:00.000Z'')]"

definition ex_store_off :: redis where
  "ex_store_off =
     ex_store\<lparr>vals := (vals ex_store)
        (tenantKey ex_tid \<mapsto> RString (stringify_plain ex_tenant_suspended),
         userKey ex_tid ex_uid \<mapsto> RString (stringify_plain ex_user_inactive))\<rparr>"

definition ex_store_user_off :: redis where
  "ex_store_user_off =
     ex_store\<lparr>vals := (vals ex_store)
        (userKey ex_tid ex_uid \<mapsto> RString (stringify_plain ex_user_inactive))\<rparr>"

text \<open>The tenant as \<open>updateTenant\<close> leaves it when it sets the status to \<open>inactive\<close>.\<close>

definition ex_tenant_deactivated :: json where
  "ex_tenant_deactivated =
     JObj [(''tenantId'', JStr ex_tid), (''name'', JStr ''Acme''),
           (''domain'', JStr ''acme.com''), (''status'', JStr ''inactive''),
           (''createdAt'', JStr ''2024-01-01T00:00:00.000Z''), (''settings'', JObj []),
           (''updatedAt'', JStr ''2024-02-01T00:00:00.000Z'')]"

definition ex_store_deactivated :: redis where
  "ex_store_deactivated =
     ex_store\<lparr>vals := (vals ex_store)
                 (tenantKey ex_tid \<mapsto> RString (stringify_plain ex_tenant_deactivated)),
               ttls := (ttls ex_store)(tenantKey ex_tid := None)\<rparr>"

text \<open>A second user with the email of the first, for another tenant.\<close>

definition ex_userData_same_email :: CreateUserData where
  "ex_userData_same_email =
     \<lparr>username = ''alice2'', email = ''alice@acme.com'', password = ''Password456'',
      role_opt = Some ''user''\<rparr>"

definition ex_user_other_tenant :: json where
  "ex_user_other_tenant =
     JObj [(''userId'', JStr ''33333333-3333-4333-8333-333333333333''),
           (''tenantId'', JStr ''44444444-4444-4444-8444-444444444444''),
           (''username'', JStr ''alice2''), (''email'', JStr ''alice@acme.com''),
           (''password'', JStr ''hash:Password456''), (''role'', JStr ''user''),
           (''status'', JStr ''active''), (''createdAt'', JStr ''2024-03-01T00:00:00.000Z'')]"

text \<open>
  The first tenant after \<open>updateTenant\<close> gave it the domain \<open>acme.org\<close>, and the tenant
  \<open>createTenant\<close> builds from \<open>ex_tenantData\<close>.
\<close>

definition ex_tenant_moved :: json where
  "ex_tenant_moved =
     JObj [(''tenantId'', JStr ''11111111-1111-4111-8111-111111111111''), (''name'', JStr ''Acme''),
           (''domain'', JStr ''acme.org''), (''status'', JStr ''active''),
           (''createdAt'', JStr ''2024-01-01T00:00:00.000Z''), (''settings'', JObj []),
           (''updatedAt'', JStr ''2024-02-01T00:00:00.000Z'')]"

definition ex_store_moved :: redis where
  "ex_store_moved =
     ex_store\<lparr>vals := (vals ex_store)
                 (tenantKey ex_tid \<mapsto> RString (stringify_plain ex_tenant_moved)),
               ttls := (ttls ex_store)(tenantKey ex_tid := None)\<rparr>"

definition ex_tenant_second :: json where
  "ex_tenant_second =
     JObj [(''tenantId'', JStr ''44444444-4444-4444-8444-444444444444''), (''name'', JStr ''Other''),
           (''domain'', JStr ''acme.com''), (''status'', JStr ''active''),
           (''createdAt'', JStr ''2024-03-01T00:00:00.000Z''), (''settings'', JObj [])]"

definition ex_docs :: "json list" where
  "ex_docs = [ex_user, ex_tenant, ex_tenant_suspended, ex_user_inactive, ex_tenant_deactivated,
              ex_user_other_tenant, ex_tenant_moved, ex_tenant_second]"

definition ex_userData :: CreateUserData where
  "ex_userData = \<lparr>username = ''bob'', email = ''bob@acme.com'', password = ''Password456'',
                   role_opt = None\<rparr>"

definition ex_uid2 :: string where
  "ex_uid2 = ''33333333-3333-4333-8333-333333333333''"

definition ex_tid2 :: string where
  "ex_tid2 = ''44444444-4444-4444-8444-444444444444''"

definition ex_tenantData :: CreateTenantData where
  "ex_tenantData = \<lparr>name = ''Other'', domain = ''acme.com'', settings = None\<rparr>"

definition ex_register :: RegisterPayload where
  "ex_register = \<lparr>tenantName = ''Other'', reg_domain = ''acme.com'', reg_username = ''carol'',
                   reg_email = ''carol@other.com'', reg_password = ''Password789''\<rparr>"

text \<open>Chat requests: headers, payload, and what the upstream may do.\<close>

definition ex_headers :: "string option \<Rightarrow> string \<Rightarrow> string option" where
  "ex_headers declared =
     (\<lambda>h. if h = ''x-tenant-id'' then declared
          else if h = ''authorization'' then Some ''Bearer jwt''
          else None)"

definition ex_chat :: json where
  "ex_chat = JObj [(''model'', JStr ''llama2''),
                   (''messages'', JArr [JObj [(''role'', JStr ''user''), (''content'', JStr ''Hello'')]]),
                   (''stream'', JBool False)]"

definition ex_answer :: json where
  "ex_answer = JObj [(''model'', JStr ''llama2''), (''created_at'', JStr ''2024-01-15T10:30:00Z''),
                     (''message'', JObj [(''role'', JStr ''assistant''), (''content'', JStr ''Hi'')]),
                     (''done'', JBool True)]"

definition ex_upstream_up :: "json \<Rightarrow> axios_result" where
  "ex_upstream_up posted = AxiosData ex_answer"

definition ex_upstream_down :: "json \<Rightarrow> axios_result" where
  "ex_upstream_down posted = AxiosError ''connect ECONNREFUSED 127.0.0.1:11434''"

definition ex_upstream_slow :: "json \<Rightarrow> axios_result" where
  "ex_upstream_slow posted = AxiosError ''timeout of 120000ms exceeded''"

definition ex_L :: libs where
  "ex_L = ex_libs ex_docs [(ex_token, ex_payload)]"

text \<open>
  A library whose tokens can be read back whatever the claims: each claim is written
  behind its length, in \<open>+\<close> signs, and a full stop.
\<close>

definition ex_frame :: "string \<Rightarrow> string" where
  "ex_frame x = replicate (length x) CHR ''+'' @ CHR ''.'' # x"

definition ex_unframe :: "string \<Rightarrow> (string \<times> string) option" where
  "ex_unframe tok =
     (let n = length (takeWhile (\<lambda>c. c = CHR ''+'') tok)
      in case drop n tok of
           [] \<Rightarrow> None
         | c # r \<Rightarrow> if c = CHR ''.'' \<and> n \<le> length r then Some (take n r, drop n r) else None)"

definition ex_sign :: "json \<Rightarrow> string \<Rightarrow> nat \<Rightarrow> string" where
  "ex_sign claims key ttl =
     (case claims_payload claims of
        None \<Rightarrow> ''jwt''
      | Some p \<Rightarrow> ex_frame (aud p) @ ex_frame (iss p) @ ex_frame (userId p) @
                  ex_frame (tenantId p) @ ex_frame (role p))"

definition ex_unsign :: "string \<Rightarrow> JWTPayload option" where
  "ex_unsign tok =
     (case ex_unframe tok of None \<Rightarrow> None | Some (a, tok1) \<Rightarrow>
     (case ex_unframe tok1 of None \<Rightarrow> None | Some (i, tok2) \<Rightarrow>
     (case ex_unframe tok2 of None \<Rightarrow> None | Some (u, tok3) \<Rightarrow>
     (case ex_unframe tok3 of None \<Rightarrow> None | Some (t, tok4) \<Rightarrow>
     (case ex_unframe tok4 of None \<Rightarrow> None | Some (r, tok5) \<Rightarrow>
        if tok5 = [] then Some \<lparr>aud = a, iss = i, userId = u, tenantId = t, role = r\<rparr>
        else None)))))"

definition ex_L_signing :: libs where
  "ex_L_signing = ex_L\<lparr>JWT_token_generate := ex_sign, JWT_verify := ex_unsign\<rparr>"

text \<open>
  The response schema of the chat route as far as the names go: an object, and no
  property but those the schema lists.
\<close>

definition ex_response_schema :: "json \<Rightarrow> bool" where
  "ex_response_schema r =
     (case r of
        JObj fs \<Rightarrow>
          list_all (\<lambda>k. k \<in> set [''model'', ''message'', ''created_at'', ''done'',
                                  ''total_duration'', ''load_duration'', ''prompt_eval_count'',
                                  ''prompt_eval_duration'', ''eval_count'', ''eval_duration'',
                                  ''tenant_id'', ''user_id'']) (map fst fs)
      | _ \<Rightarrow> False)"

definition ex_L_strict :: libs where
  "ex_L_strict = ex_L\<lparr>Joi_response := ex_response_schema\<rparr>"

text \<open>An answer with a property the schema does not list.\<close>

definition ex_answer_reason :: json where
  "ex_answer_reason =
     JObj [(''model'', JStr ''llama2''), (''created_at'', JStr ''2024-01-15T10:30:00Z''),
           (''message'', JObj [(''role'', JStr ''assistant''), (''content'', JStr ''Hi'')]),
           (''done_reason'', JStr ''stop''), (''done'', JBool True)]"

definition ex_upstream_reason :: "json \<Rightarrow> axios_result" where
  "ex_upstream_reason posted = AxiosData ex_answer_reason"

definition ex_admin :: AuthCredentials where
  "ex_admin = principal ex_artifacts ex_user"

definition ex_admin_other :: AuthCredentials where
  "ex_admin_other = \<lparr>user = JObj [], cred_tenantId = ex_tid2, scope = [''admin'', ''user'']\<rparr>"

definition ex_login :: LoginPayload where
  "ex_login = \<lparr>login_email = ''alice@acme.com'', login_password = ''SecurePass123'',
                login_tenantId = Some ex_tid, login_domain = None\<rparr>"

section \<open>Properties\<close>

subsection \<open>The monad and the values\<close>

lemma put_prop_name [simp]:
  "\<not> is_digit c \<Longrightarrow> put_prop (c # cs) v fs = AList.update (c # cs) v fs"
  by (simp add: put_prop_def)

lemma is_digit_char [simp]:
  "is_digit c = (c = CHR ''0'' \<or> c = CHR ''1'' \<or> c = CHR ''2'' \<or> c = CHR ''3'' \<or> c = CHR ''4'' \<or>
     c = CHR ''5'' \<or> c = CHR ''6'' \<or> c = CHR ''7'' \<or> c = CHR ''8'' \<or> c = CHR ''9'')"
  by (auto simp add: is_digit_def)

lemmas key_defs = blacklistKey_def tenantKey_def domainKey_def userKey_def usersKey_def
  emailKey_def sessionKey_def

lemmas io_defs = bindIO_def returnIO_def throwIO_def catchIO_def liftE_def getClient_def
  this_redis_def

lemmas redis_defs = redis_get_def redis_set_def redis_setEx_def redis_exists_def redis_del_def
  redis_sAdd_def redis_sMembers_def

lemmas ex_defs = ex_store_def ex_tid_def ex_uid_def ex_payload_def ex_libs_def parse_table_def
  quoted_def ex_user_def ex_tenant_def

lemma own_props_None [simp]: "(own_props v = None) = (v = JNull)"
  by (cases v) auto

subsection \<open>The example store\<close>

lemma ex_store_up: "connected ex_store" "reachable ex_store"
  by (simp_all add: ex_store_def)

lemma ex_store_user:
  "vals ex_store (userKey ex_tid ex_uid) = Some (RString (stringify_plain ex_user))"
  by (simp add: ex_store_def key_defs ex_tid_def ex_uid_def)

lemma ex_store_tenant:
  "vals ex_store (tenantKey ex_tid) = Some (RString (stringify_plain ex_tenant))"
  by (simp add: ex_store_def key_defs ex_tid_def ex_uid_def)

lemma ex_store_email:
  "vals ex_store (emailKey ex_tid ''alice@acme.com'') = Some (RString ex_uid)"
  by (simp add: ex_store_def key_defs ex_tid_def ex_uid_def)

lemma ex_store_no_blacklist: "vals ex_store (blacklistKey tok) = None"
  by (simp add: ex_store_def key_defs)

lemma ex_parse_user:
  "JSON_parse (ex_libs ex_docs tokens) (stringify_plain ex_user) = Some ex_user"
  by (simp add: ex_libs_def parse_table_def ex_docs_def)

lemma ex_parse_tenant:
  "JSON_parse (ex_libs ex_docs tokens) (stringify_plain ex_tenant) = Some ex_tenant"
  by (simp add: ex_libs_def parse_table_def ex_docs_def ex_user_def ex_tenant_def quoted_def)

lemma ex_parse_tenant_suspended:
  "JSON_parse (ex_libs ex_docs tokens) (stringify_plain ex_tenant_suspended) = Some ex_tenant_suspended"
  by (simp add: ex_libs_def parse_table_def ex_docs_def ex_user_def ex_tenant_def
        ex_tenant_suspended_def quoted_def ex_tid_def)

lemma ex_parse_user_inactive:
  "JSON_parse (ex_libs ex_docs tokens) (stringify_plain ex_user_inactive) = Some ex_user_inactive"
  by (simp add: ex_libs_def parse_table_def ex_docs_def ex_user_def ex_tenant_def
        ex_tenant_suspended_def ex_user_inactive_def quoted_def ex_tid_def ex_uid_def)

lemma ex_parse_tenant_deactivated:
  "JSON_parse (ex_libs ex_docs tokens) (stringify_plain ex_tenant_deactivated) =
     Some ex_tenant_deactivated"
  by (simp add: ex_libs_def parse_table_def ex_docs_def ex_user_def ex_tenant_def
        ex_tenant_suspended_def ex_user_inactive_def ex_tenant_deactivated_def quoted_def
        ex_tid_def ex_uid_def)

lemma ex_user_not_null: "ex_user \<noteq> JNull" "stringify_plain ex_user \<noteq> []"
  by (simp_all add: ex_user_def)

lemma ex_stringify [simp]: "JSON_stringify (ex_libs docs tokens) = stringify_plain"
  by (simp add: ex_libs_def)

lemma stringify_plain_obj [simp]: "stringify_plain (JObj fs) \<noteq> []"
  by simp

subsection \<open>The auth gate\<close>

lemma validate_try_state: "snd (validate_try L a s) = s"
  by (simp add: validate_try_def bindIO_def returnIO_def liftE_def getClient_def
      redis_exists_def redis_get_def
      split: prod.splits sum.splits option.splits rval.splits if_splits)

lemma validate_try_throws_iff:
  "(\<exists>e. fst (validate_try L a s) = Inl e) =
     (\<not> connected s \<or> \<not> reachable s \<or>
      (\<not> blacklisted s (token a) \<and> tenant_exists s (tenantId (payload a)) \<and>
        (case vals s (userKey (tenantId (payload a)) (userId (payload a))) of
           None \<Rightarrow> False
         | Some (RSet ms) \<Rightarrow> True
         | Some (RString v) \<Rightarrow> v \<noteq> [] \<and> (JSON_parse L v = None \<or> JSON_parse L v = Some JNull))))"
  by (auto simp add: validate_try_def bindIO_def returnIO_def liftE_def getClient_def
      redis_exists_def redis_get_def blacklisted_def tenant_exists_def parseJSON_def
      object_rest_def
      split: option.splits rval.splits)

lemma validate_invalid_iff:
  "(fst (validate L a s) = Inr Invalid) =
     (blacklisted s (token a) \<or> \<not> tenant_exists s (tenantId (payload a)) \<or>
      \<not> user_exists s (tenantId (payload a)) (userId (payload a)) \<or>
      (\<exists>e. fst (validate_try L a s) = Inl e))"
  by (auto simp add: validate_def catchIO_def validate_try_def bindIO_def returnIO_def liftE_def
      getClient_def redis_exists_def redis_get_def blacklisted_def tenant_exists_def
      user_exists_def parseJSON_def object_rest_def
      split: option.splits rval.splits)

lemma validate_returns: "\<exists>r. fst (validate L a s) = Inr r"
  by (auto simp add: validate_def catchIO_def returnIO_def split: prod.splits sum.splits)

lemma validate_state: "snd (validate L a s) = s"
  using validate_try_state [of L a s]
  by (auto simp add: validate_def catchIO_def returnIO_def split: prod.splits sum.splits)

text \<open>
  C2. For a token that passed the signature and expiry checks, \<open>validate\<close> answers
  invalid exactly when the raw token is blacklisted, or the tenant id of the claims
  has no tenant record, or the user id has no user record under that tenant, or a
  step threw; it never throws itself, and answers valid with credentials in every
  other case. A step throws exactly when the client is not initialised, the store
  does not answer, the user key holds a set, or the stored text is not JSON or is
  \<open>null\<close>.
\<close>

theorem validate_fail_closed:
  "((fst (validate L a s) = Inr Invalid) =
      (blacklisted s (token a) \<or> \<not> tenant_exists s (tenantId (payload a)) \<or>
       \<not> user_exists s (tenantId (payload a)) (userId (payload a)) \<or>
       (\<exists>e. fst (validate_try L a s) = Inl e))) \<and>
   ((\<exists>e. fst (validate_try L a s) = Inl e) =
      (\<not> connected s \<or> \<not> reachable s \<or>
       (\<not> blacklisted s (token a) \<and> tenant_exists s (tenantId (payload a)) \<and>
         (case vals s (userKey (tenantId (payload a)) (userId (payload a))) of
            None \<Rightarrow> False
          | Some (RSet ms) \<Rightarrow> True
          | Some (RString v) \<Rightarrow> v \<noteq> [] \<and> (JSON_parse L v = None \<or> JSON_parse L v = Some JNull))))) \<and>
   (\<forall>e. fst (validate L a s) \<noteq> Inl e) \<and>
   (fst (validate L a s) = Inr Invalid \<or> (\<exists>c. fst (validate L a s) = Inr (Valid c))) \<and>
   snd (validate L a s) = s"
proof -
  obtain r where r: "fst (validate L a s) = Inr r"
    using validate_returns by blast
  have "fst (validate L a s) = Inr Invalid \<or> (\<exists>c. fst (validate L a s) = Inr (Valid c))"
    using r by (cases r) auto
  moreover have "\<forall>e. fst (validate L a s) \<noteq> Inl e"
    using r by simp
  ultimately show ?thesis
    using validate_invalid_iff [of L a s] validate_try_throws_iff [of L a s] validate_state [of L a s]
    by blast
qed

theorem validate_fail_closed_witness:
  "\<not> blacklisted ex_store ''jwt.abc'' \<and> tenant_exists ex_store ex_tid \<and>
   user_exists ex_store ex_tid ex_uid \<and>
   fst (validate (ex_libs ex_docs []) \<lparr>payload = ex_payload, token = ''jwt.abc''\<rparr> ex_store)
     \<noteq> Inr Invalid \<and>
   (\<forall>e. fst (validate_try (ex_libs ex_docs []) \<lparr>payload = ex_payload, token = ''jwt.abc''\<rparr> ex_store)
     \<noteq> Inl e)"
  using validate_fail_closed [of "ex_libs ex_docs []"
          "\<lparr>payload = ex_payload, token = ''jwt.abc''\<rparr>" ex_store]
  by (simp add: blacklisted_def tenant_exists_def user_exists_def ex_store_up ex_store_user
       ex_store_tenant ex_store_no_blacklist ex_parse_user ex_user_not_null ex_payload_def)

lemma validate_valid:
  assumes "connected s" and "reachable s"
    and "\<not> blacklisted s (token a)"
    and "tenant_exists s (tenantId (payload a))"
    and "vals s (userKey (tenantId (payload a)) (userId (payload a))) = Some (RString raw)"
    and "raw \<noteq> []"
    and "JSON_parse L raw = Some usr" and "usr \<noteq> JNull"
  shows "validate L a s =
           (Inr (Valid \<lparr>user = JObj (AList.delete ''password'' (spread_props usr)),
                         cred_tenantId = tenantId (payload a),
                         scope = (if get_prop usr ''role'' = Some (JStr ''admin'')
                                  then [''admin'', ''user''] else [''user''])\<rparr>), s)"
  using assms
  by (cases usr)
     (simp_all add: validate_def validate_try_def io_defs redis_exists_def redis_get_def
        blacklisted_def tenant_exists_def parseJSON_def object_rest_def spread_props_def)

lemma ex_token_issued: "generateToken (ex_libs docs tokens) ex_user ex_tid = ex_token"
  by (simp add: ex_token_def generateToken_def ex_libs_def jwt_key_def)

lemma ex_user_props:
  "get_prop ex_user ''userId'' = Some (JStr ex_uid)"
  "get_prop ex_user ''role'' = Some (JStr ''admin'')"
  by (simp_all add: ex_user_def)

lemma generateToken_claims:
  assumes "get_prop usr ''userId'' = Some (JStr uid)" and "get_prop usr ''role'' = Some (JStr r)"
  shows "generateToken L usr tid =
           JWT_token_generate L
             (JObj [(''aud'', JStr ''urn:audience:api''), (''iss'', JStr ''urn:issuer:api''),
                    (''userId'', JStr uid), (''tenantId'', JStr tid), (''role'', JStr r)])
             (jwt_key L) 14400"
  using assms by (simp add: generateToken_def)

lemma claims_payload_issued:
  "claims_payload
     (JObj [(''aud'', JStr ''urn:audience:api''), (''iss'', JStr ''urn:issuer:api''),
            (''userId'', JStr uid), (''tenantId'', JStr tid), (''role'', JStr r)]) =
   Some \<lparr>aud = ''urn:audience:api'', iss = ''urn:issuer:api'',
          userId = uid, tenantId = tid, role = r\<rparr>"
  by (simp add: claims_payload_def text_claim_def)

text \<open>
  C1. Take a tenant id, a user id and a role for which the store holds the tenant
  record and the user record, the record carrying that role. With a library that
  verifies the tokens it generates, the token \<open>generateToken\<close> issues for them (for a
  user object with that id and role) is answered by the strategy, which verifies it
  and calls \<open>validate\<close>, with credentials whose scope is \<open>['admin', 'user']\<close> when the
  role is \<open>admin\<close> and \<open>['user']\<close> otherwise, whose tenant id is the one put in the
  token, and whose user is the stored record (the password left out, as everywhere
  outside the store). The token is fresh: not blacklisted; the store is up.
\<close>

theorem issued_token_principal:
  assumes "connected s" and "reachable s"
    and "tenant_exists s tid"
    and "vals s (userKey tid uid) = Some (RString raw)" and "raw \<noteq> []"
    and "JSON_parse L raw = Some (JObj stored)"
    and "map_of stored ''role'' = Some (JStr r)"
    and "get_prop usr ''userId'' = Some (JStr uid)" and "get_prop usr ''role'' = Some (JStr r)"
    and "\<not> blacklisted s (generateToken L usr tid)"
    and "jwt_roundtrip L"
  shows "jwt_strategy L (generateToken L usr tid) s =
           (Inr \<lparr>user = JObj (AList.delete ''password'' stored),
                  cred_tenantId = tid,
                  scope = (if r = ''admin'' then [''admin'', ''user''] else [''user''])\<rparr>, s)"
proof -
  let ?p = "\<lparr>aud = ''urn:audience:api'', iss = ''urn:issuer:api'',
              userId = uid, tenantId = tid, role = r\<rparr>"
  let ?a = "\<lparr>payload = ?p, token = generateToken L usr tid\<rparr>"
  have verified: "JWT_verify L (generateToken L usr tid) = Some ?p"
    using assms(11) claims_payload_issued [of uid tid r]
    unfolding jwt_roundtrip_def generateToken_claims [OF assms(8,9)] by blast
  have "validate L ?a s =
           (Inr (Valid \<lparr>user = JObj (AList.delete ''password'' (spread_props (JObj stored))),
                         cred_tenantId = tenantId (payload ?a),
                         scope = (if get_prop (JObj stored) ''role'' = Some (JStr ''admin'')
                                  then [''admin'', ''user''] else [''user''])\<rparr>), s)"
    by (rule validate_valid [where raw = raw]) (use assms in \<open>simp_all\<close>)
  then show ?thesis
    using assms(7) verified by (simp add: jwt_strategy_def io_defs spread_props_def)
qed

lemma takeWhile_run:
  "b \<noteq> a \<Longrightarrow> takeWhile (\<lambda>c. c = a) (replicate n a @ b # ys) = replicate n a"
  by (induction n) simp_all

lemma ex_unframe_frame: "ex_unframe (ex_frame x @ rest) = Some (x, rest)"
  by (simp add: ex_unframe_def ex_frame_def takeWhile_run)

lemma ex_unsign_sign:
  "ex_unsign (ex_frame a @ ex_frame i @ ex_frame u @ ex_frame t @ ex_frame r) =
     Some \<lparr>aud = a, iss = i, userId = u, tenantId = t, role = r\<rparr>"
  using ex_unframe_frame [of r "[]"]
  by (simp add: ex_unsign_def ex_unframe_frame)

lemma ex_jwt_roundtrip: "jwt_roundtrip ex_L_signing"
  unfolding jwt_roundtrip_def
proof (intro allI impI)
  fix claims p
  assume "claims_payload claims = Some p"
  then have "ex_sign claims (jwt_key ex_L_signing) 14400 =
      ex_frame (aud p) @ ex_frame (iss p) @ ex_frame (userId p) @
      ex_frame (tenantId p) @ ex_frame (role p)"
    by (simp add: ex_sign_def)
  then show "JWT_verify ex_L_signing
      (JWT_token_generate ex_L_signing claims (jwt_key ex_L_signing) 14400) = Some p"
    by (simp add: ex_L_signing_def ex_unsign_sign)
qed

lemma ex_L_signing_parse:
  "JSON_parse ex_L_signing (stringify_plain ex_user) = Some ex_user"
  by (simp add: ex_L_signing_def ex_L_def ex_parse_user)

theorem issued_token_principal_witness:
  "jwt_roundtrip ex_L_signing \<and>
   jwt_strategy ex_L_signing (generateToken ex_L_signing ex_user ex_tid) ex_store =
     (Inr \<lparr>user = JObj [(''userId'', JStr ex_uid), (''tenantId'', JStr ex_tid),
                   (''username'', JStr ''alice''), (''email'', JStr ''alice@acme.com''),
                   (''role'', JStr ''admin''), (''status'', JStr ''active''),
                   (''createdAt'', JStr ''2024-01-01T00:00:00.000Z'')],
            cred_tenantId = ex_tid, scope = [''admin'', ''user'']\<rparr>, ex_store)"
proof -
  have "\<exists>fs. ex_user = JObj fs \<and> map_of fs ''role'' = Some (JStr ''admin'') \<and>
     AList.delete ''password'' fs =
       [(''userId'', JStr ex_uid), (''tenantId'', JStr ex_tid),
        (''username'', JStr ''alice''), (''email'', JStr ''alice@acme.com''),
        (''role'', JStr ''admin''), (''status'', JStr ''active''),
        (''createdAt'', JStr ''2024-01-01T00:00:00.000Z'')]"
    by (simp add: ex_user_def)
  then obtain fs where fs: "ex_user = JObj fs" "map_of fs ''role'' = Some (JStr ''admin'')"
     "AList.delete ''password'' fs =
       [(''userId'', JStr ex_uid), (''tenantId'', JStr ex_tid),
        (''username'', JStr ''alice''), (''email'', JStr ''alice@acme.com''),
        (''role'', JStr ''admin''), (''status'', JStr ''active''),
        (''createdAt'', JStr ''2024-01-01T00:00:00.000Z'')]"
    by blast
  show ?thesis
    using issued_token_principal [of ex_store ex_tid ex_uid "stringify_plain ex_user"
        ex_L_signing fs "''admin''" ex_user]
      ex_store_up ex_store_tenant ex_store_user ex_user_not_null
      ex_L_signing_parse fs ex_user_props ex_store_no_blacklist ex_jwt_roundtrip
    by (simp add: tenant_exists_def blacklisted_def)
qed

subsection \<open>Normal forms\<close>

lemma validate_eq:
  "validate L a s =
     (Inr (if \<not> connected s \<or> \<not> reachable s then Invalid
           else if vals s (blacklistKey (token a)) \<noteq> None then Invalid
           else if vals s (tenantKey (tenantId (payload a))) = None then Invalid
           else (case vals s (userKey (tenantId (payload a)) (userId (payload a))) of
                  None \<Rightarrow> Invalid
                | Some (RSet ms) \<Rightarrow> Invalid
                | Some (RString raw) \<Rightarrow>
                    if raw = [] then Invalid
                    else (case JSON_parse L raw of
                           None \<Rightarrow> Invalid
                         | Some usr \<Rightarrow> if usr = JNull then Invalid else Valid (principal a usr)))), s)"
  by (simp add: validate_def validate_try_def io_defs redis_exists_def redis_get_def
         parseJSON_def object_rest_def principal_def spread_props_def
         split: option.splits rval.splits)

lemma getTenant_eq:
  "getTenant L tid s =
     (if \<not> connected s then Inl TypeError
      else if \<not> reachable s then Inl (RedisError ''unreachable'')
      else (case vals s (tenantKey tid) of
              None \<Rightarrow> Inr JNull
            | Some (RSet ms) \<Rightarrow> Inl (RedisError ''WRONGTYPE'')
            | Some (RString raw) \<Rightarrow> if raw = [] then Inr JNull else parseJSON L raw), s)"
  by (simp add: getTenant_def io_defs redis_get_def split: option.splits rval.splits)

lemma getTenant_state: "snd (getTenant L tid s) = s"
  by (simp add: getTenant_eq)

lemma updateTenant_eq:
  "updateTenant L now tid updates s =
     (case getTenant L tid s of
        (Inl e, _) \<Rightarrow> (Inl e, s)
      | (Inr tenant, _) \<Rightarrow>
          if \<not> truthy (Some tenant) then (Inr JNull, s)
          else (Inr (updated_tenant now tid tenant updates),
                s\<lparr>vals := (vals s)(tenantKey tid \<mapsto>
                              RString (JSON_stringify L (updated_tenant now tid tenant updates))),
                  ttls := (ttls s)(tenantKey tid := None)\<rparr>))"
  by (simp add: updateTenant_def getTenant_eq io_defs redis_set_def Let_def
        split: option.splits rval.splits sum.splits)

lemma getUserByEmail_eq:
  "getUserByEmail L tid mail s =
     (if \<not> connected s then Inl TypeError
      else if \<not> reachable s then Inl (RedisError ''unreachable'')
      else (case vals s (emailKey tid mail) of
              None \<Rightarrow> Inr JNull
            | Some (RSet ms) \<Rightarrow> Inl (RedisError ''WRONGTYPE'')
            | Some (RString uid) \<Rightarrow>
                if uid = [] then Inr JNull
                else (case vals s (userKey tid uid) of
                        None \<Rightarrow> Inr JNull
                      | Some (RSet ms) \<Rightarrow> Inl (RedisError ''WRONGTYPE'')
                      | Some (RString raw) \<Rightarrow> if raw = [] then Inr JNull else parseJSON L raw)), s)"
  by (simp add: getUserByEmail_def io_defs redis_get_def split: option.splits rval.splits)

lemma key_blacklist_tenant [simp]: "blacklistKey tok \<noteq> tenantKey tid"
  by (simp add: key_defs)

lemma key_user_tenant [simp]: "userKey tid uid \<noteq> tenantKey tid"
  by (simp add: key_defs)

subsection \<open>The auth gate and the status fields\<close>

lemma sv_none: "status_variant_val L v w \<Longrightarrow> (v = None) = (w = None)"
  by (cases "(L, v, w)" rule: status_variant_val.cases) auto

lemma sv_refl [simp]: "status_variant_val L v v"
  by (cases "(L, v, v)" rule: status_variant_val.cases) auto

lemma parsed_object_Some:
  "(parsed_object L raw = Some fs) = (JSON_parse L raw = Some (JObj fs))"
  by (simp add: parsed_object_def split: option.splits json.splits)

lemma sv_cases:
  assumes "status_variant_val L v w"
  obtains "v = w"
  | x y fa fb where "v = Some (RString x)" "w = Some (RString y)" "x \<noteq> []" "y \<noteq> []"
      "JSON_parse L x = Some (JObj fa)" "JSON_parse L y = Some (JObj fb)"
      "AList.delete ''status'' fa = AList.delete ''status'' fb"
proof (cases "(L, v, w)" rule: status_variant_val.cases)
  case (1 L' x y)
  then have vw: "v = Some (RString x)" "w = Some (RString y)" by simp_all
  show ?thesis
  proof (cases "x = y")
    case True
    then show ?thesis using vw that(1) by simp
  next
    case False
    then have h: "x \<noteq> []" "y \<noteq> []" "parsed_object L x \<noteq> None"
      "map_option (AList.delete ''status'') (parsed_object L x) =
       map_option (AList.delete ''status'') (parsed_object L y)"
      using assms vw by simp_all
    then obtain fa where fa: "parsed_object L x = Some fa" by blast
    then obtain fb where fb: "parsed_object L y = Some fb"
      using h(4) by (cases "parsed_object L y") simp_all
    have "AList.delete ''status'' fa = AList.delete ''status'' fb"
      using h(4) fa fb by simp
    then show ?thesis
      using that(2) [OF vw h(1) h(2)] fa fb by (simp add: parsed_object_Some)
  qed
qed (use assms that(1) in \<open>simp_all\<close>)

lemma delete_status_role:
  assumes "AList.delete ''status'' fa = AList.delete ''status'' fb"
  shows "map_of fa ''role'' = map_of fb ''role''"
proof -
  have "map_of (AList.delete ''status'' fa) ''role'' = map_of fa ''role''"
    by (simp add: delete_conv')
  moreover have "map_of (AList.delete ''status'' fb) ''role'' = map_of fb ''role''"
    by (simp add: delete_conv')
  ultimately show ?thesis using assms by simp
qed

lemma delete_status_password:
  assumes "AList.delete ''status'' fa = AList.delete ''status'' fb"
  shows "AList.delete ''status'' (AList.delete ''password'' fa) =
         AList.delete ''status'' (AList.delete ''password'' fb)"
proof -
  have "AList.delete ''status'' (AList.delete ''password'' fa) =
        AList.delete ''password'' (AList.delete ''status'' fa)"
    by (rule delete_twist)
  also have "\<dots> = AList.delete ''password'' (AList.delete ''status'' fb)"
    using assms by simp
  also have "\<dots> = AList.delete ''status'' (AList.delete ''password'' fb)"
    by (rule delete_twist)
  finally show ?thesis .
qed

lemma principal_status:
  assumes "AList.delete ''status'' fa = AList.delete ''status'' fb"
  shows "cred_tenantId (principal a (JObj fb)) = cred_tenantId (principal a (JObj fa))"
    and "scope (principal a (JObj fb)) = scope (principal a (JObj fa))"
    and "object_rest ''status'' (user (principal a (JObj fb))) =
         object_rest ''status'' (user (principal a (JObj fa)))"
  using delete_status_role [OF assms] delete_status_password [OF assms]
  by (simp_all add: principal_def spread_props_def object_rest_def)

lemma validate_status_variant:
  assumes "status_variant L s s'"
  shows "(fst (validate L a s) = Inr Invalid) = (fst (validate L a s') = Inr Invalid) \<and>
         (\<forall>c. fst (validate L a s) = Inr (Valid c) \<longrightarrow>
           (\<exists>c'. fst (validate L a s') = Inr (Valid c') \<and> cred_tenantId c' = cred_tenantId c \<and>
              scope c' = scope c \<and>
              object_rest ''status'' (user c') = object_rest ''status'' (user c)))"
proof -
  let ?bk = "blacklistKey (token a)"
  let ?tk = "tenantKey (tenantId (payload a))"
  let ?uk = "userKey (tenantId (payload a)) (userId (payload a))"
  have flags: "connected s' = connected s" "reachable s' = reachable s"
    using assms by (simp_all add: status_variant_def)
  have b: "(vals s' ?bk = None) = (vals s ?bk = None)"
    using assms sv_none [of L "vals s ?bk" "vals s' ?bk"] by (simp add: status_variant_def)
  have t: "(vals s' ?tk = None) = (vals s ?tk = None)"
    using assms sv_none [of L "vals s ?tk" "vals s' ?tk"] by (simp add: status_variant_def)
  have u: "status_variant_val L (vals s ?uk) (vals s' ?uk)"
    using assms by (simp add: status_variant_def)
  from u show ?thesis
  proof (cases rule: sv_cases)
    case 1
    then show ?thesis
      by (simp add: validate_eq flags b t)
  next
    case (2 x y fa fb)
    then show ?thesis
      using principal_status [OF 2(7), of a]
      by (simp add: validate_eq flags b t)
  qed
qed

lemma validate_after_updateTenant:
  assumes "validate L a s = (Inr (Valid c), s)"
    and "updateTenant L now (tenantId (payload a)) updates s = (Inr t', s')"
  shows "validate L a s' = (Inr (Valid c), s')"
proof -
  obtain tenant where g: "getTenant L (tenantId (payload a)) s = (Inr tenant, s)"
    using assms(2) getTenant_state [of L "tenantId (payload a)" s]
    by (cases "getTenant L (tenantId (payload a)) s")
       (auto simp add: updateTenant_eq split: sum.splits)
  show ?thesis
  proof (cases "truthy (Some tenant)")
    case False
    then have "s' = s" using assms(2) g by (simp add: updateTenant_eq)
    then show ?thesis using assms(1) by simp
  next
    case True
    then have s': "s' = s\<lparr>vals := (vals s)(tenantKey (tenantId (payload a)) \<mapsto>
           RString (JSON_stringify L (updated_tenant now (tenantId (payload a)) tenant updates))),
         ttls := (ttls s)(tenantKey (tenantId (payload a)) := None)\<rparr>"
      using assms(2) g by (auto simp add: updateTenant_eq)
    have "fst (validate L a s') = fst (validate L a s)"
      using assms(1) by (simp add: validate_eq s' split: if_splits)
    then show ?thesis
      using assms(1) by (simp add: validate_eq)
  qed
qed

lemma updated_tenant_status:
  "get_prop (updated_tenant now tid tenant (JObj [(''status'', JStr st)])) ''status'' = Some (JStr st)"
  by (simp add: updated_tenant_def spread_def spread_props_def update_conv')

lemma login_inactive_tenant:
  assumes "updateTenant L now tid (JObj [(''status'', JStr st)]) s = (Inr t', s')"
    and "t' \<noteq> JNull" and "st \<noteq> ''active''" and "tid \<noteq> []" and "json_roundtrip L t'"
  shows "login_handler L uuid now'
           \<lparr>login_email = mail, login_password = pw, login_tenantId = Some tid, login_domain = None\<rparr>
           agent s' = (Inl (Boom 403 ''Tenant is not active''), s')"
proof -
  obtain tenant where g: "getTenant L tid s = (Inr tenant, s)"
    using assms(1) getTenant_state [of L tid s]
    by (cases "getTenant L tid s") (auto simp add: updateTenant_eq split: sum.splits)
  have tr: "truthy (Some tenant)"
    using assms(1,2) g by (auto simp add: updateTenant_eq split: if_splits)
  have t': "t' = updated_tenant now tid tenant (JObj [(''status'', JStr st)])"
    and s': "s' = s\<lparr>vals := (vals s)(tenantKey tid \<mapsto> RString (JSON_stringify L t')),
                  ttls := (ttls s)(tenantKey tid := None)\<rparr>"
    using assms(1) g tr by (auto simp add: updateTenant_eq)
  have up: "connected s" "reachable s"
    using g by (auto simp add: getTenant_eq split: if_splits)
  have get': "getTenant L tid s' = (Inr t', s')"
    using assms(5) up by (simp add: getTenant_eq s' json_roundtrip_def parseJSON_def)
  have st: "get_prop t' ''status'' = Some (JStr st)"
    by (simp add: t' updated_tenant_status)
  have obj: "truthy (Some t')"
    by (simp add: t' updated_tenant_def)
  show ?thesis
    using get' st obj assms(3,4)
    by (simp add: login_handler_def bindIO_def catchIO_def throwIO_def boom_or_def)
qed

lemma login_inactive_user:
  assumes "tid \<noteq> []"
    and "getTenant L tid s = (Inr tenant, s)"
    and "get_prop tenant ''status'' = Some (JStr ''active'')"
    and "getUserByEmail L (string_prop tenant ''tenantId'') mail s = (Inr usr, s)"
    and "get_prop usr ''password'' = Some (JStr h)"
    and "bcrypt_compare L pw h"
    and "get_prop usr ''status'' \<noteq> Some (JStr ''active'')"
  shows "login_handler L uuid now
           \<lparr>login_email = mail, login_password = pw, login_tenantId = Some tid, login_domain = None\<rparr>
           agent s = (Inl (Boom 403 ''User account is not active''), s)"
proof -
  have "truthy (Some tenant)" using assms(3) by (cases tenant) simp_all
  moreover have "truthy (Some usr)" using assms(5) by (cases usr) simp_all
  ultimately show ?thesis
    using assms
    by (simp add: login_handler_def bindIO_def catchIO_def throwIO_def boom_or_def
          verifyPassword_def returnIO_def)
qed

text \<open>
  C9. \<open>validate\<close> does not look at status fields. For two store states that differ
  only in \<open>status\<close> fields of stored records, the same token gets the same decision,
  and when it is valid the same tenant id, the same scope and the same user up to
  the user's own \<open>status\<close>. In particular a token that is valid stays valid, with the
  same credentials, after \<open>updateTenant\<close> has written a new status into its tenant;
  yet login to that tenant is then answered 403 when the status is not \<open>active\<close>,
  and login of a user whose status is not \<open>active\<close> is answered 403 as well.
\<close>

theorem auth_gate_ignores_status:
  "(status_variant L s s' \<longrightarrow>
      ((fst (validate L a s) = Inr Invalid) = (fst (validate L a s') = Inr Invalid)) \<and>
      (\<forall>c. fst (validate L a s) = Inr (Valid c) \<longrightarrow>
         (\<exists>c'. fst (validate L a s') = Inr (Valid c') \<and> cred_tenantId c' = cred_tenantId c \<and>
               scope c' = scope c \<and>
               object_rest ''status'' (user c') = object_rest ''status'' (user c)))) \<and>
   (validate L a u = (Inr (Valid cr), u) \<and>
    updateTenant L now (tenantId (payload a)) (JObj [(''status'', JStr st)]) u = (Inr t', u') \<longrightarrow>
      validate L a u' = (Inr (Valid cr), u')) \<and>
   (updateTenant L now tid (JObj [(''status'', JStr st)]) u = (Inr t', u') \<and>
    t' \<noteq> JNull \<and> st \<noteq> ''active'' \<and> tid \<noteq> [] \<and> json_roundtrip L t' \<longrightarrow>
      login_handler L uuid now'
        \<lparr>login_email = mail, login_password = pw, login_tenantId = Some tid, login_domain = None\<rparr>
        agent u' = (Inl (Boom 403 ''Tenant is not active''), u')) \<and>
   (tid \<noteq> [] \<and> getTenant L tid w = (Inr tenant, w) \<and>
    get_prop tenant ''status'' = Some (JStr ''active'') \<and>
    getUserByEmail L (string_prop tenant ''tenantId'') mail w = (Inr usr, w) \<and>
    get_prop usr ''password'' = Some (JStr h) \<and> bcrypt_compare L pw h \<and>
    get_prop usr ''status'' \<noteq> Some (JStr ''active'') \<longrightarrow>
      login_handler L uuid now'
        \<lparr>login_email = mail, login_password = pw, login_tenantId = Some tid, login_domain = None\<rparr>
        agent w = (Inl (Boom 403 ''User account is not active''), w))"
  using validate_status_variant [of L s s' a]
    validate_after_updateTenant [of L a u cr now "JObj [(''status'', JStr st)]" t' u']
    login_inactive_tenant [of L now tid st u t' u' uuid now' mail pw agent]
    login_inactive_user [of tid L w tenant mail usr h pw uuid now' agent]
  by blast

subsection \<open>The status fields, on the example store\<close>


lemma ex_L_parse:
  "JSON_parse ex_L (stringify_plain ex_user) = Some ex_user"
  "JSON_parse ex_L (stringify_plain ex_tenant) = Some ex_tenant"
  "JSON_parse ex_L (stringify_plain ex_tenant_suspended) = Some ex_tenant_suspended"
  "JSON_parse ex_L (stringify_plain ex_user_inactive) = Some ex_user_inactive"
  "JSON_parse ex_L (stringify_plain ex_tenant_deactivated) = Some ex_tenant_deactivated"
  by (simp_all add: ex_L_def ex_parse_user ex_parse_tenant ex_parse_tenant_suspended
        ex_parse_user_inactive ex_parse_tenant_deactivated)

lemma ex_L_stringify [simp]: "JSON_stringify ex_L = stringify_plain"
  by (simp add: ex_L_def)

lemma ex_objects:
  "ex_user = JObj (spread_props ex_user)"
  "ex_user_inactive = JObj (spread_props ex_user_inactive)"
  "ex_tenant = JObj (spread_props ex_tenant)"
  "ex_tenant_suspended = JObj (spread_props ex_tenant_suspended)"
  by (simp_all add: ex_user_def ex_user_inactive_def ex_tenant_def ex_tenant_suspended_def
        spread_props_def)

lemma ex_status_only:
  "AList.delete ''status'' (spread_props ex_user) = AList.delete ''status'' (spread_props ex_user_inactive)"
  "AList.delete ''status'' (spread_props ex_tenant) = AList.delete ''status'' (spread_props ex_tenant_suspended)"
  by (simp_all add: ex_user_def ex_user_inactive_def ex_tenant_def ex_tenant_suspended_def
        spread_props_def)

lemma ex_parsed_object:
  "parsed_object ex_L (stringify_plain ex_user) = Some (spread_props ex_user)"
  "parsed_object ex_L (stringify_plain ex_user_inactive) = Some (spread_props ex_user_inactive)"
  "parsed_object ex_L (stringify_plain ex_tenant) = Some (spread_props ex_tenant)"
  "parsed_object ex_L (stringify_plain ex_tenant_suspended) = Some (spread_props ex_tenant_suspended)"
  using ex_objects by (simp_all add: parsed_object_Some ex_L_parse)

lemma ex_nonempty:
  "stringify_plain ex_user \<noteq> []" "stringify_plain ex_user_inactive \<noteq> []"
  "stringify_plain ex_tenant \<noteq> []" "stringify_plain ex_tenant_suspended \<noteq> []"
  "stringify_plain ex_tenant_deactivated \<noteq> []"
  by (simp_all add: ex_user_def ex_user_inactive_def ex_tenant_def ex_tenant_suspended_def
       ex_tenant_deactivated_def)

lemma ex_status_variant: "status_variant ex_L ex_store ex_store_off"
  unfolding status_variant_def
proof (intro conjI allI)
  fix k
  show "status_variant_val ex_L (vals ex_store k) (vals ex_store_off k)"
  proof (cases "k = userKey ex_tid ex_uid")
    case True
    then show ?thesis
      by (simp add: ex_store_off_def ex_store_user ex_parsed_object ex_status_only ex_nonempty)
  next
    case False
    show ?thesis
    proof (cases "k = tenantKey ex_tid")
      case True
      with \<open>k \<noteq> userKey ex_tid ex_uid\<close> show ?thesis
        by (simp add: ex_store_off_def ex_store_tenant ex_parsed_object ex_status_only ex_nonempty)
    next
      case False
      with \<open>k \<noteq> userKey ex_tid ex_uid\<close> show ?thesis
        by (simp add: ex_store_off_def)
    qed
  qed
qed (simp_all add: ex_store_off_def)


lemma ex_validate:
  "validate ex_L ex_artifacts ex_store = (Inr (Valid (principal ex_artifacts ex_user)), ex_store)"
  using ex_store_up
  by (simp add: validate_eq ex_artifacts_def ex_payload_def ex_store_no_blacklist ex_store_tenant
        ex_store_user ex_nonempty ex_L_parse ex_user_not_null)

lemma ex_getTenant: "getTenant ex_L ex_tid ex_store = (Inr ex_tenant, ex_store)"
  using ex_store_up
  by (simp add: getTenant_eq ex_store_tenant ex_nonempty parseJSON_def ex_L_parse)

lemma ex_updated_tenant:
  "updated_tenant ''2024-02-01T00:00:00.000Z'' ex_tid ex_tenant (JObj [(''status'', JStr ''inactive'')])
     = ex_tenant_deactivated"
  by (simp add: updated_tenant_def ex_tenant_def ex_tenant_deactivated_def spread_def
        spread_props_def)

lemma ex_truthy: "truthy (Some ex_tenant)" "truthy (Some ex_user)"
  by (simp_all add: ex_tenant_def ex_user_def)

lemma ex_updateTenant:
  "updateTenant ex_L ''2024-02-01T00:00:00.000Z'' ex_tid (JObj [(''status'', JStr ''inactive'')]) ex_store
     = (Inr ex_tenant_deactivated, ex_store_deactivated)"
  using ex_objects(3)
  by (simp add: updateTenant_eq ex_getTenant ex_updated_tenant ex_store_deactivated_def ex_truthy)

lemma ex_roundtrip_deactivated: "json_roundtrip ex_L ex_tenant_deactivated"
  by (simp add: json_roundtrip_def ex_L_parse ex_nonempty)

lemma ex_tid_nonempty: "ex_tid \<noteq> []"
  by (simp add: ex_tid_def)

lemma ex_user_off_getTenant:
  "getTenant ex_L ex_tid ex_store_user_off = (Inr ex_tenant, ex_store_user_off)"
  using ex_store_up
  by (simp add: getTenant_eq ex_store_user_off_def ex_store_tenant ex_nonempty parseJSON_def
        ex_L_parse key_user_tenant [symmetric])

lemma key_email_user: "emailKey tid mail = userKey tid uid \<longleftrightarrow> uid = ''email:'' @ mail"
  by (auto simp add: key_defs)

lemma ex_user_off_getUserByEmail:
  "getUserByEmail ex_L ex_tid ''alice@acme.com'' ex_store_user_off =
     (Inr ex_user_inactive, ex_store_user_off)"
  using ex_store_up
  by (simp add: getUserByEmail_eq ex_store_user_off_def ex_store_email ex_nonempty parseJSON_def
        ex_L_parse key_email_user ex_uid_def)


lemma ex_props:
  "get_prop ex_tenant ''status'' = Some (JStr ''active'')"
  "string_prop ex_tenant ''tenantId'' = ex_tid"
  "get_prop ex_user_inactive ''password'' = Some (JStr ''hash:SecurePass123'')"
  "get_prop ex_user_inactive ''status'' = Some (JStr ''inactive'')"
  by (simp_all add: ex_tenant_def ex_user_inactive_def string_prop_def)

theorem auth_gate_ignores_status_witness:
  "status_variant ex_L ex_store ex_store_off \<and>
   fst (validate ex_L ex_artifacts ex_store) = Inr (Valid (principal ex_artifacts ex_user)) \<and>
   fst (validate ex_L ex_artifacts ex_store_off) \<noteq> Inr Invalid \<and>
   updateTenant ex_L ''2024-02-01T00:00:00.000Z'' ex_tid (JObj [(''status'', JStr ''inactive'')]) ex_store
     = (Inr ex_tenant_deactivated, ex_store_deactivated) \<and>
   validate ex_L ex_artifacts ex_store_deactivated =
     (Inr (Valid (principal ex_artifacts ex_user)), ex_store_deactivated) \<and>
   login_handler ex_L ''s-1'' ''2024-02-02T00:00:00.000Z'' ex_login None ex_store_deactivated =
     (Inl (Boom 403 ''Tenant is not active''), ex_store_deactivated) \<and>
   login_handler ex_L ''s-1'' ''2024-02-02T00:00:00.000Z'' ex_login None ex_store_user_off =
     (Inl (Boom 403 ''User account is not active''), ex_store_user_off)"
proof -
  have tid: "tenantId (payload ex_artifacts) = ex_tid"
    by (simp add: ex_artifacts_def ex_payload_def)
  have pw: "bcrypt_compare ex_L ''SecurePass123'' ''hash:SecurePass123''"
    by (simp add: ex_L_def ex_libs_def)
  show ?thesis
    using auth_gate_ignores_status [where L = ex_L and s = ex_store and s' = ex_store_off
        and a = ex_artifacts and u = ex_store and cr = "principal ex_artifacts ex_user"
        and now = "''2024-02-01T00:00:00.000Z''" and st = "''inactive''"
        and t' = ex_tenant_deactivated and u' = ex_store_deactivated and tid = ex_tid
        and uuid = "''s-1''" and now' = "''2024-02-02T00:00:00.000Z''"
        and mail = "''alice@acme.com''" and pw = "''SecurePass123''" and agent = None
        and w = ex_store_user_off and tenant = ex_tenant and usr = ex_user_inactive
        and h = "''hash:SecurePass123''"]
      ex_status_variant ex_validate ex_updateTenant ex_roundtrip_deactivated ex_tid_nonempty
      ex_user_off_getTenant ex_user_off_getUserByEmail ex_props pw tid
    by (simp add: ex_login_def ex_tenant_deactivated_def)
qed

subsection \<open>The directory and the password\<close>


lemma getUser_eq:
  "getUser L tid uid s =
     (if \<not> connected s then Inl TypeError
      else if \<not> reachable s then Inl (RedisError ''unreachable'')
      else (case vals s (userKey tid uid) of
              None \<Rightarrow> Inr JNull
            | Some (RSet ms) \<Rightarrow> Inl (RedisError ''WRONGTYPE'')
            | Some (RString raw) \<Rightarrow>
                if raw = [] then Inr JNull
                else (case JSON_parse L raw of
                        None \<Rightarrow> Inl SyntaxError
                      | Some usr \<Rightarrow> object_rest ''password'' usr)), s)"
  by (simp add: getUser_def io_defs redis_get_def parseJSON_def split: option.splits rval.splits)

lemma object_rest_no_password: "object_rest ''password'' v = Inr r \<Longrightarrow> no_password r"
  by (auto simp add: object_rest_def no_password_def delete_notin_dom split: option.splits)

lemma getUser_no_password:
  assumes "fst (getUser L tid uid s) = Inr r"
  shows "no_password r"
  using assms object_rest_no_password
  by (auto simp add: getUser_eq no_password_def split: if_splits option.splits rval.splits)

lemma getAllUsers_loop_no_password:
  assumes "\<forall>r \<in> set acc. no_password r"
    and "fst (getAllUsers_loop L tid ids acc s) = Inr rs"
  shows "\<forall>r \<in> set rs. no_password r"
  using assms
proof (induction ids arbitrary: acc s)
  case Nil
  then show ?case by (simp add: returnIO_def)
next
  case (Cons uid ids)
  obtain res s1 where g: "getUser L tid uid s = (res, s1)"
    by (cases "getUser L tid uid s")
  show ?case
  proof (cases res)
    case (Inl e)
    then show ?thesis using Cons.prems(2) g by (simp add: bindIO_def)
  next
    case (Inr usr)
    have np: "no_password usr"
      using getUser_no_password [of L tid uid s usr] g Inr by simp
    let ?acc = "if truthy (Some usr) then acc @ [usr] else acc"
    have "\<forall>r \<in> set ?acc. no_password r"
      using Cons.prems(1) np by simp
    moreover have "fst (getAllUsers_loop L tid ids ?acc s1) = Inr rs"
      using Cons.prems(2) g Inr by (simp add: bindIO_def)
    ultimately show ?thesis
      by (rule Cons.IH)
  qed
qed

lemma getAllUsers_eq:
  "getAllUsers L tid s =
     (if \<not> connected s then (Inl TypeError, s)
      else if \<not> reachable s then (Inl (RedisError ''unreachable''), s)
      else (case vals s (usersKey tid) of
              None \<Rightarrow> getAllUsers_loop L tid [] [] s
            | Some (RSet ms) \<Rightarrow> getAllUsers_loop L tid ms [] s
            | Some (RString v) \<Rightarrow> (Inl (RedisError ''WRONGTYPE''), s)))"
  by (simp add: getAllUsers_def bindIO_def this_redis_def redis_sMembers_def
        split: option.splits rval.splits)

lemma getAllUsers_no_password:
  assumes "fst (getAllUsers L tid s) = Inr rs"
  shows "\<forall>r \<in> set rs. no_password r"
proof -
  let ?ids = "case vals s (usersKey tid) of Some (RSet ms) \<Rightarrow> ms | _ \<Rightarrow> []"
  have "fst (getAllUsers_loop L tid ?ids [] s) = Inr rs"
    using assms
    by (simp add: getAllUsers_eq del: getAllUsers_loop.simps
          split: if_splits option.splits rval.splits)
  then show ?thesis
    using getAllUsers_loop_no_password [of "[]" L tid ?ids s rs] by simp
qed

lemma createUser_no_password:
  assumes "fst (createUser L uuid now tid userData s) = Inr r"
  shows "no_password r"
  using assms
  by (auto simp add: createUser_def new_user_def Let_def io_defs redis_set_def redis_sAdd_def
        object_rest_def no_password_def split: if_splits option.splits rval.splits)

lemma updateUser_no_password:
  assumes "fst (updateUser L now tid uid updates s) = Inr r"
  shows "no_password r"
  using assms
  by (auto simp add: updateUser_def Let_def io_defs redis_set_def redis_get_def parseJSON_def
        updated_user_def object_rest_def no_password_def delete_notin_dom
        split: if_splits option.splits rval.splits)


lemma createUser_result:
  assumes "fst (createUser L uuid now tid userData s) = Inr r"
  shows "r = JObj [(''userId'', JStr uuid), (''tenantId'', JStr tid),
                   (''username'', JStr (username userData)), (''email'', JStr (email userData)),
                   (''role'', JStr (if truthy_str (role_opt userData)
                                    then the (role_opt userData) else ''user'')),
                   (''status'', JStr ''active''), (''createdAt'', JStr now)]"
  using assms
  by (auto simp add: createUser_def new_user_def Let_def io_defs redis_set_def redis_sAdd_def
        object_rest_def split: if_splits option.splits rval.splits)

text \<open>
  C7. Whatever \<open>createUser\<close>, \<open>getUser\<close>, \<open>getAllUsers\<close> and \<open>updateUser\<close> return has no
  \<open>password\<close> property: the user \<open>createUser\<close> returns is the record it stored with
  that property left out, and so is every user the other three return, also when the
  update itself carries a \<open>password\<close>.
\<close>

theorem directory_never_returns_password:
  "(fst (createUser L uuid now tid userData s) = Inr r \<longrightarrow>
      no_password r \<and>
      r = JObj [(''userId'', JStr uuid), (''tenantId'', JStr tid),
                (''username'', JStr (username userData)), (''email'', JStr (email userData)),
                (''role'', JStr (if truthy_str (role_opt userData)
                                 then the (role_opt userData) else ''user'')),
                (''status'', JStr ''active''), (''createdAt'', JStr now)]) \<and>
   (fst (getUser L tid' uid s') = Inr r' \<longrightarrow> no_password r') \<and>
   (fst (getAllUsers L tid' s') = Inr rs \<longrightarrow> (\<forall>x \<in> set rs. no_password x)) \<and>
   (fst (updateUser L now' tid' uid updates s') = Inr r'' \<longrightarrow> no_password r'')"
  using createUser_no_password [of L uuid now tid userData s r]
    createUser_result [of L uuid now tid userData s r]
    getUser_no_password [of L tid' uid s' r']
    getAllUsers_no_password [of L tid' s' rs]
    updateUser_no_password [of L now' tid' uid updates s' r'']
  by blast

lemma ex_store_users: "vals ex_store (usersKey ex_tid) = Some (RSet [ex_uid])"
  by (simp add: ex_store_def key_defs ex_tid_def ex_uid_def)

lemma ex_getUser:
  "getUser ex_L ex_tid ex_uid ex_store =
     (Inr (JObj (AList.delete ''password'' (spread_props ex_user))), ex_store)"
  using ex_store_up ex_user_not_null(1)
  by (simp add: getUser_eq ex_store_user ex_nonempty ex_L_parse object_rest_def spread_props_def
        split: option.splits)

lemma ex_getAllUsers:
  "getAllUsers ex_L ex_tid ex_store =
     (Inr [JObj (AList.delete ''password'' (spread_props ex_user))], ex_store)"
  using ex_store_up
  by (simp add: getAllUsers_eq ex_store_users ex_getUser bindIO_def returnIO_def)

lemma ex_createUser:
  "fst (createUser ex_L ex_uid2 ''2024-03-01T00:00:00.000Z'' ex_tid ex_userData ex_store) =
     Inr (JObj [(''userId'', JStr ex_uid2), (''tenantId'', JStr ex_tid),
                (''username'', JStr ''bob''), (''email'', JStr ''bob@acme.com''),
                (''role'', JStr ''user''), (''status'', JStr ''active''),
                (''createdAt'', JStr ''2024-03-01T00:00:00.000Z'')])"
  using ex_store_up ex_store_users
  by (simp add: createUser_def new_user_def Let_def io_defs redis_set_def redis_sAdd_def
        object_rest_def ex_userData_def key_defs)

lemma updateUser_eq:
  "updateUser L now tid uid updates s =
     (if \<not> connected s then (Inl TypeError, s)
      else if \<not> reachable s then (Inl (RedisError ''unreachable''), s)
      else (case vals s (userKey tid uid) of
              None \<Rightarrow> (Inr JNull, s)
            | Some (RSet ms) \<Rightarrow> (Inl (RedisError ''WRONGTYPE''), s)
            | Some (RString raw) \<Rightarrow>
                if raw = [] then (Inr JNull, s)
                else (case JSON_parse L raw of
                        None \<Rightarrow> (Inl SyntaxError, s)
                      | Some usr \<Rightarrow>
                          (object_rest ''password'' (updated_user now tid uid usr updates),
                           s\<lparr>vals := (vals s)(userKey tid uid \<mapsto>
                                 RString (JSON_stringify L (updated_user now tid uid usr updates))),
                             ttls := (ttls s)(userKey tid uid := None)\<rparr>))))"
  by (simp add: updateUser_def Let_def io_defs redis_set_def redis_get_def parseJSON_def
        split: option.splits rval.splits)

lemma ex_updated_user:
  "object_rest ''password''
     (updated_user ''2024-03-01T00:00:00.000Z'' ex_tid ex_uid ex_user
        (JObj [(''password'', JStr ''sneaky''), (''role'', JStr ''user'')])) =
     Inr (JObj [(''userId'', JStr ex_uid), (''tenantId'', JStr ex_tid),
                (''username'', JStr ''alice''), (''email'', JStr ''alice@acme.com''),
                (''role'', JStr ''user''), (''status'', JStr ''active''),
                (''createdAt'', JStr ''2024-01-01T00:00:00.000Z''),
                (''updatedAt'', JStr ''2024-03-01T00:00:00.000Z'')])"
  by (simp add: updated_user_def object_rest_def spread_def spread_props_def ex_user_def)

lemma ex_updateUser:
  "fst (updateUser ex_L ''2024-03-01T00:00:00.000Z'' ex_tid ex_uid
          (JObj [(''password'', JStr ''sneaky''), (''role'', JStr ''user'')]) ex_store) =
     Inr (JObj [(''userId'', JStr ex_uid), (''tenantId'', JStr ex_tid),
                (''username'', JStr ''alice''), (''email'', JStr ''alice@acme.com''),
                (''role'', JStr ''user''), (''status'', JStr ''active''),
                (''createdAt'', JStr ''2024-01-01T00:00:00.000Z''),
                (''updatedAt'', JStr ''2024-03-01T00:00:00.000Z'')])"
  using ex_store_up
  by (simp add: updateUser_eq ex_store_user ex_nonempty ex_L_parse ex_updated_user)

theorem directory_never_returns_password_witness:
  "fst (createUser ex_L ex_uid2 ''2024-03-01T00:00:00.000Z'' ex_tid ex_userData ex_store) =
     Inr (JObj [(''userId'', JStr ex_uid2), (''tenantId'', JStr ex_tid),
                (''username'', JStr ''bob''), (''email'', JStr ''bob@acme.com''),
                (''role'', JStr ''user''), (''status'', JStr ''active''),
                (''createdAt'', JStr ''2024-03-01T00:00:00.000Z'')]) \<and>
   fst (getUser ex_L ex_tid ex_uid ex_store) =
     Inr (JObj (AList.delete ''password'' (spread_props ex_user))) \<and>
   no_password (JObj (AList.delete ''password'' (spread_props ex_user))) \<and>
   fst (getAllUsers ex_L ex_tid ex_store) =
     Inr [JObj (AList.delete ''password'' (spread_props ex_user))] \<and>
   fst (updateUser ex_L ''2024-03-01T00:00:00.000Z'' ex_tid ex_uid
          (JObj [(''password'', JStr ''sneaky''), (''role'', JStr ''user'')]) ex_store) =
     Inr (JObj [(''userId'', JStr ex_uid), (''tenantId'', JStr ex_tid),
                (''username'', JStr ''alice''), (''email'', JStr ''alice@acme.com''),
                (''role'', JStr ''user''), (''status'', JStr ''active''),
                (''createdAt'', JStr ''2024-01-01T00:00:00.000Z''),
                (''updatedAt'', JStr ''2024-03-01T00:00:00.000Z'')]) \<and>
   no_password (JObj [(''userId'', JStr ex_uid), (''tenantId'', JStr ex_tid),
                (''username'', JStr ''alice''), (''email'', JStr ''alice@acme.com''),
                (''role'', JStr ''user''), (''status'', JStr ''active''),
                (''createdAt'', JStr ''2024-01-01T00:00:00.000Z''),
                (''updatedAt'', JStr ''2024-03-01T00:00:00.000Z'')])"
  using directory_never_returns_password [where L = ex_L and uuid = ex_uid2
      and now = "''2024-03-01T00:00:00.000Z''" and tid = ex_tid and userData = ex_userData
      and s = ex_store and tid' = ex_tid and uid = ex_uid and s' = ex_store
      and now' = "''2024-03-01T00:00:00.000Z''"
      and updates = "JObj [(''password'', JStr ''sneaky''), (''role'', JStr ''user'')]"
      and r = "JObj [(''userId'', JStr ex_uid2), (''tenantId'', JStr ex_tid),
                (''username'', JStr ''bob''), (''email'', JStr ''bob@acme.com''),
                (''role'', JStr ''user''), (''status'', JStr ''active''),
                (''createdAt'', JStr ''2024-03-01T00:00:00.000Z'')]"
      and r' = "JObj (AList.delete ''password'' (spread_props ex_user))"
      and rs = "[JObj (AList.delete ''password'' (spread_props ex_user))]"
      and r'' = "JObj [(''userId'', JStr ex_uid), (''tenantId'', JStr ex_tid),
                (''username'', JStr ''alice''), (''email'', JStr ''alice@acme.com''),
                (''role'', JStr ''user''), (''status'', JStr ''active''),
                (''createdAt'', JStr ''2024-01-01T00:00:00.000Z''),
                (''updatedAt'', JStr ''2024-03-01T00:00:00.000Z'')]"]
    ex_createUser ex_getUser ex_getAllUsers ex_updateUser
  by simp

subsection \<open>Domains: register and createTenant\<close>


lemma getTenantByDomain_eq:
  "getTenantByDomain L dname s =
     (if \<not> connected s then (Inl TypeError, s)
      else if \<not> reachable s then (Inl (RedisError ''unreachable''), s)
      else (case vals s (domainKey dname) of
              None \<Rightarrow> (Inr JNull, s)
            | Some (RSet ms) \<Rightarrow> (Inl (RedisError ''WRONGTYPE''), s)
            | Some (RString tid) \<Rightarrow> if tid = [] then (Inr JNull, s) else getTenant L tid s))"
  by (simp add: getTenantByDomain_def io_defs redis_get_def split: option.splits rval.splits)

lemma domain_registered_found:
  assumes "connected s" and "reachable s" and "domain_registered L s dname"
  shows "\<exists>t. getTenantByDomain L dname s = (Inr t, s) \<and> truthy (Some t)"
proof (cases "vals s (domainKey dname)")
  case None
  then show ?thesis using assms(3) by (simp add: domain_registered_def)
next
  case (Some v)
  show ?thesis
  proof (cases v)
    case (RSet ms)
    then show ?thesis using assms(3) Some by (simp add: domain_registered_def)
  next
    case (RString tid)
    note tid = this
    show ?thesis
    proof (cases "vals s (tenantKey tid)")
      case None
      then show ?thesis using assms(3) Some tid by (simp add: domain_registered_def)
    next
      case (Some w)
      note w = this
      show ?thesis
      proof (cases w)
        case (RSet ms)
        then show ?thesis
          using assms(3) \<open>vals s (domainKey dname) = Some v\<close> tid w
          by (simp add: domain_registered_def)
      next
        case (RString raw)
        then have h: "tid \<noteq> []" "raw \<noteq> []" "truthy (JSON_parse L raw)"
          using assms(3) \<open>vals s (domainKey dname) = Some v\<close> tid w
          by (simp_all add: domain_registered_def)
        then obtain t where t: "JSON_parse L raw = Some t"
          by (cases "JSON_parse L raw") simp_all
        have "getTenantByDomain L dname s = (Inr t, s)"
          using assms(1,2) \<open>vals s (domainKey dname) = Some v\<close> tid w RString h t
          by (simp add: getTenantByDomain_eq getTenant_eq parseJSON_def)
        then show ?thesis using h(3) t by simp
      qed
    qed
  qed
qed

lemma register_conflict:
  assumes "connected s" and "reachable s" and "domain_registered L s (reg_domain pl)"
  shows "register_handler L tdrawn udrawn pl s =
           (Inl (Boom 409 ''Tenant with this domain already exists''), s)"
proof -
  obtain t where "getTenantByDomain L (reg_domain pl) s = (Inr t, s)" "truthy (Some t)"
    using domain_registered_found [OF assms] by blast
  then show ?thesis
    by (simp add: register_handler_def bindIO_def catchIO_def throwIO_def boom_or_def)
qed

lemma colon_free_tenants_all: "colon_free uuid \<Longrightarrow> tenantKey uuid \<noteq> ''tenants:all''"
  by (auto simp add: colon_free_def key_defs)

lemma colon_free_domainKey: "colon_free uuid \<Longrightarrow> tenantKey uuid \<noteq> domainKey d"
  by (auto simp add: colon_free_def key_defs)

lemma domainKey_tenants_all [simp]: "domainKey d \<noteq> ''tenants:all''"
  by (simp add: key_defs)

lemma createTenant_unchecked:
  assumes "connected s" and "reachable s" and "domain td \<noteq> []"
    and "no_string_at s ''tenants:all''" and "colon_free uuid"
  shows "fst (createTenant L uuid now td s) = Inr (new_tenant uuid now td) \<and>
         vals (snd (createTenant L uuid now td s)) (domainKey (domain td)) = Some (RString uuid) \<and>
         vals (snd (createTenant L uuid now td s)) (tenantKey uuid) =
           Some (RString (JSON_stringify L (new_tenant uuid now td)))"
proof -
  note k = colon_free_tenants_all [OF assms(5)] colon_free_domainKey [OF assms(5), of "domain td"]
  show ?thesis
  proof (cases "vals s ''tenants:all''")
    case None
    then show ?thesis
      using assms(1,2,3) k
      by (simp add: createTenant_def Let_def io_defs redis_set_def redis_sAdd_def)
  next
    case (Some v)
    then obtain ms where "v = RSet ms"
      using assms(4) by (cases v) (simp_all add: no_string_at_def)
    then show ?thesis
      using assms(1,2,3) k Some
      by (simp add: createTenant_def Let_def io_defs redis_set_def redis_sAdd_def)
  qed
qed


lemma ex_store_domain: "vals ex_store (domainKey ''acme.com'') = Some (RString ex_tid)"
  by (simp add: ex_store_def key_defs ex_tid_def ex_uid_def)

lemma ex_store_tenants_all: "no_string_at ex_store ''tenants:all''"
  by (simp add: no_string_at_def ex_store_def key_defs ex_tid_def ex_uid_def)

lemma ex_domain_registered: "domain_registered ex_L ex_store ''acme.com''"
  by (simp add: domain_registered_def ex_store_domain ex_store_tenant ex_tid_nonempty ex_nonempty
        ex_L_parse ex_truthy)

lemma ex_colon_free: "colon_free ex_tid" "colon_free ex_tid2" "colon_free ex_uid" "colon_free ex_uid2"
  by (simp_all add: colon_free_def ex_tid_def ex_tid2_def ex_uid_def ex_uid2_def)

text \<open>
  C5, as the claim states it, fails: \<open>createTenant\<close> makes no check. Called with the
  domain of the tenant the example store already holds, it returns a second tenant
  bearing that domain, stores it, and the index entry of the domain, which named the
  first tenant, names the second.
\<close>

theorem createTenant_registered_domain_counterexample:
  "domain_registered ex_L ex_store ''acme.com'' \<and>
   vals ex_store (domainKey ''acme.com'') = Some (RString ex_tid) \<and>
   fst (createTenant ex_L ex_tid2 ''2024-03-01T00:00:00.000Z'' ex_tenantData ex_store) =
     Inr (JObj [(''tenantId'', JStr ex_tid2), (''name'', JStr ''Other''),
                (''domain'', JStr ''acme.com''), (''status'', JStr ''active''),
                (''createdAt'', JStr ''2024-03-01T00:00:00.000Z''), (''settings'', JObj [])]) \<and>
   vals (snd (createTenant ex_L ex_tid2 ''2024-03-01T00:00:00.000Z'' ex_tenantData ex_store))
     (domainKey ''acme.com'') = Some (RString ex_tid2) \<and>
   vals (snd (createTenant ex_L ex_tid2 ''2024-03-01T00:00:00.000Z'' ex_tenantData ex_store))
     (tenantKey ex_tid2) \<noteq> None \<and>
   ex_tid2 \<noteq> ex_tid"
proof -
  have d: "domain ex_tenantData = ''acme.com''"
    by (simp add: ex_tenantData_def)
  have n: "new_tenant ex_tid2 ''2024-03-01T00:00:00.000Z'' ex_tenantData =
      JObj [(''tenantId'', JStr ex_tid2), (''name'', JStr ''Other''),
            (''domain'', JStr ''acme.com''), (''status'', JStr ''active''),
            (''createdAt'', JStr ''2024-03-01T00:00:00.000Z''), (''settings'', JObj [])]"
    by (simp add: new_tenant_def ex_tenantData_def)
  have "ex_tid2 \<noteq> ex_tid"
    by (simp add: ex_tid_def ex_tid2_def)
  then show ?thesis
    using createTenant_unchecked [of ex_store ex_tenantData ex_tid2 ex_L "''2024-03-01T00:00:00.000Z''"]
      ex_store_up ex_store_tenants_all ex_colon_free(2) ex_domain_registered ex_store_domain
    by (simp add: d n)
qed

text \<open>
  C5, amended. For a domain that is registered (the index names a tenant whose record
  loads), the register endpoint, the caller of \<open>createTenant\<close>, fails with a conflict
  (409) before it calls \<open>createTenant\<close>: no second tenant is created and the index
  entry stays, the store is as it was. \<open>createTenant\<close> itself makes no check of the
  index: on a store that answers, with a fresh id and a non-empty domain, it returns
  the new tenant and writes the tenant record and the index entry of the domain,
  whatever the index held.
\<close>

theorem register_rejects_registered_domain:
  "(connected s \<and> reachable s \<and> domain_registered L s (reg_domain pl) \<longrightarrow>
      register_handler L tdrawn udrawn pl s =
        (Inl (Boom 409 ''Tenant with this domain already exists''), s)) \<and>
   (connected u \<and> reachable u \<and> domain td \<noteq> [] \<and> no_string_at u ''tenants:all'' \<and>
    colon_free uuid \<longrightarrow>
      fst (createTenant L uuid now td u) = Inr (new_tenant uuid now td) \<and>
      vals (snd (createTenant L uuid now td u)) (domainKey (domain td)) = Some (RString uuid) \<and>
      vals (snd (createTenant L uuid now td u)) (tenantKey uuid) =
        Some (RString (JSON_stringify L (new_tenant uuid now td))))"
  using register_conflict [of s L pl tdrawn udrawn]
    createTenant_unchecked [of u td uuid L now]
  by blast

theorem register_rejects_registered_domain_witness:
  "domain_registered ex_L ex_store (reg_domain ex_register) \<and>
   register_handler ex_L (ex_tid2, ''2024-03-01T00:00:00.000Z'') (ex_uid2, ''2024-03-01T00:00:00.000Z'')
       ex_register ex_store =
     (Inl (Boom 409 ''Tenant with this domain already exists''), ex_store) \<and>
   fst (createTenant ex_L ex_tid2 ''2024-03-01T00:00:00.000Z'' ex_tenantData ex_store) =
     Inr (new_tenant ex_tid2 ''2024-03-01T00:00:00.000Z'' ex_tenantData)"
proof -
  have d: "reg_domain ex_register = ''acme.com''" "domain ex_tenantData \<noteq> []"
    by (simp_all add: ex_register_def ex_tenantData_def)
  show ?thesis
    using register_rejects_registered_domain [where s = ex_store and L = ex_L and pl = ex_register
        and tdrawn = "(ex_tid2, ''2024-03-01T00:00:00.000Z'')"
        and udrawn = "(ex_uid2, ''2024-03-01T00:00:00.000Z'')"
        and u = ex_store and td = ex_tenantData and uuid = ex_tid2
        and now = "''2024-03-01T00:00:00.000Z''"]
      ex_store_up ex_store_tenants_all ex_colon_free(2) ex_domain_registered d
    by simp
qed

subsection \<open>Emails: one user per email within a tenant\<close>


lemma colon_split:
  assumes "colon_free a" and "colon_free b" and "a @ CHR '':'' # x = b @ CHR '':'' # y"
  shows "a = b \<and> x = y"
  using assms
proof (induction a arbitrary: b)
  case Nil
  then show ?case by (cases b) (auto simp add: colon_free_def)
next
  case (Cons c a)
  show ?case
  proof (cases b)
    case Nil
    then show ?thesis using Cons.prems by (auto simp add: colon_free_def)
  next
    case (Cons d b')
    then have "a = b' \<and> x = y"
      using Cons.prems Cons.IH [of b'] by (simp add: colon_free_def)
    then show ?thesis using Cons Cons.prems by simp
  qed
qed

lemma tenant_scoped_keys:
  assumes "colon_free t1" and "colon_free t2" and "t1 \<noteq> t2"
  shows "userKey t1 u \<noteq> userKey t2 u'" "userKey t1 u \<noteq> usersKey t2" "userKey t1 u \<noteq> emailKey t2 m'"
    "emailKey t1 m \<noteq> userKey t2 u'" "emailKey t1 m \<noteq> usersKey t2" "emailKey t1 m \<noteq> emailKey t2 m'"
    "usersKey t1 \<noteq> userKey t2 u'" "usersKey t1 \<noteq> usersKey t2" "usersKey t1 \<noteq> emailKey t2 m'"
  using colon_split [OF assms(1,2)] assms(3)
  by (auto simp add: key_defs)

lemma same_tenant_keys:
  "userKey t u \<noteq> usersKey t" "usersKey t \<noteq> userKey t u" "usersKey t \<noteq> emailKey t m"
  "emailKey t m \<noteq> usersKey t"
  by (simp_all add: key_defs)

lemma user_email_keys:
  "colon_free u \<Longrightarrow> userKey t u \<noteq> emailKey t m"
  "colon_free u \<Longrightarrow> emailKey t m \<noteq> userKey t u"
  by (auto simp add: key_defs colon_free_def)


lemma email_registered_found:
  assumes "connected s" and "reachable s" and "email_registered L s tid mail"
  shows "\<exists>usr. getUserByEmail L tid mail s = (Inr usr, s) \<and> truthy (Some usr)"
proof (cases "vals s (emailKey tid mail)")
  case None
  then show ?thesis using assms(3) by (simp add: email_registered_def)
next
  case (Some v)
  note v = this
  show ?thesis
  proof (cases v)
    case (RSet ms)
    then show ?thesis using assms(3) v by (simp add: email_registered_def)
  next
    case (RString uid)
    note uid = this
    show ?thesis
    proof (cases "vals s (userKey tid uid)")
      case None
      then show ?thesis using assms(3) v uid by (simp add: email_registered_def)
    next
      case (Some w)
      note w = this
      show ?thesis
      proof (cases w)
        case (RSet ms)
        then show ?thesis using assms(3) v uid w by (simp add: email_registered_def)
      next
        case (RString raw)
        then have h: "uid \<noteq> []" "raw \<noteq> []" "truthy (JSON_parse L raw)"
          using assms(3) v uid w by (simp_all add: email_registered_def)
        then obtain usr where usr: "JSON_parse L raw = Some usr"
          by (cases "JSON_parse L raw") simp_all
        have "getUserByEmail L tid mail s = (Inr usr, s)"
          using assms(1,2) v uid w RString h usr
          by (simp add: getUserByEmail_eq parseJSON_def)
        then show ?thesis using h(3) usr by simp
      qed
    qed
  qed
qed

lemma create_user_conflict:
  assumes "connected s" and "reachable s"
    and "email_registered L s (cred_tenantId c) (email ud)"
  shows "create_user_handler L uuid now c ud s =
           (Inl (Boom 409 ''User with this email already exists in tenant''), s)"
proof -
  obtain usr where "getUserByEmail L (cred_tenantId c) (email ud) s = (Inr usr, s)"
      "truthy (Some usr)"
    using email_registered_found [OF assms] by blast
  then show ?thesis
    by (simp add: create_user_handler_def bindIO_def catchIO_def throwIO_def boom_or_def)
qed

lemma createUser_store:
  assumes "connected s" and "reachable s" and "no_string_at s (usersKey tid)"
  shows "fst (createUser L uuid now tid ud s) = object_rest ''password'' (new_user L uuid now tid ud)"
    and "connected (snd (createUser L uuid now tid ud s))"
    and "reachable (snd (createUser L uuid now tid ud s))"
    and "vals (snd (createUser L uuid now tid ud s)) (emailKey tid (email ud)) = Some (RString uuid)"
    and "k \<noteq> emailKey tid (email ud) \<Longrightarrow> k \<noteq> usersKey tid \<Longrightarrow>
         vals (snd (createUser L uuid now tid ud s)) k =
           (if k = userKey tid uuid
            then Some (RString (JSON_stringify L (new_user L uuid now tid ud)))
            else vals s k)"
proof -
  have ne: "usersKey tid \<noteq> userKey tid uuid"
    by (simp add: key_defs)
  have "fst (createUser L uuid now tid ud s) = object_rest ''password'' (new_user L uuid now tid ud) \<and>
        connected (snd (createUser L uuid now tid ud s)) \<and>
        reachable (snd (createUser L uuid now tid ud s)) \<and>
        vals (snd (createUser L uuid now tid ud s)) (emailKey tid (email ud)) = Some (RString uuid) \<and>
        (k \<noteq> emailKey tid (email ud) \<longrightarrow> k \<noteq> usersKey tid \<longrightarrow>
         vals (snd (createUser L uuid now tid ud s)) k =
           (if k = userKey tid uuid
            then Some (RString (JSON_stringify L (new_user L uuid now tid ud)))
            else vals s k))"
  proof (cases "vals s (usersKey tid)")
    case None
    then show ?thesis
      using assms(1,2) ne
      by (simp add: createUser_def Let_def io_defs redis_set_def redis_sAdd_def)
  next
    case (Some v)
    then obtain ms where "v = RSet ms"
      using assms(3) by (cases v) (simp_all add: no_string_at_def)
    then show ?thesis
      using assms(1,2) ne Some
      by (simp add: createUser_def Let_def io_defs redis_set_def redis_sAdd_def)
  qed
  then show "fst (createUser L uuid now tid ud s) = object_rest ''password'' (new_user L uuid now tid ud)"
    and "connected (snd (createUser L uuid now tid ud s))"
    and "reachable (snd (createUser L uuid now tid ud s))"
    and "vals (snd (createUser L uuid now tid ud s)) (emailKey tid (email ud)) = Some (RString uuid)"
    and "k \<noteq> emailKey tid (email ud) \<Longrightarrow> k \<noteq> usersKey tid \<Longrightarrow>
         vals (snd (createUser L uuid now tid ud s)) k =
           (if k = userKey tid uuid
            then Some (RString (JSON_stringify L (new_user L uuid now tid ud)))
            else vals s k)"
    by simp_all
qed


lemma new_user_public:
  "object_rest ''password'' (new_user L uuid now tid ud) =
     Inr (JObj [(''userId'', JStr uuid), (''tenantId'', JStr tid),
                (''username'', JStr (username ud)), (''email'', JStr (email ud)),
                (''role'', JStr (if truthy_str (role_opt ud) then the (role_opt ud) else ''user'')),
                (''status'', JStr ''active''), (''createdAt'', JStr now)])"
  by (simp add: new_user_def Let_def object_rest_def)

lemma new_user_truthy: "truthy (Some (new_user L uuid now tid ud))"
  by (simp add: new_user_def Let_def)

lemma email_registered_cong:
  assumes "vals s' (emailKey tid mail) = vals s (emailKey tid mail)"
    and "\<And>uid. vals s' (userKey tid uid) = vals s (userKey tid uid)"
  shows "email_registered L s' tid mail = email_registered L s tid mail"
  using assms by (simp add: email_registered_def cong: option.case_cong rval.case_cong)

lemma create_user_other_tenant:
  assumes "connected s" and "reachable s"
    and "email_registered L s tid (email ud)"
    and "cred_tenantId c2 = tid2" and "tid2 \<noteq> tid"
    and "colon_free tid" and "colon_free tid2" and "colon_free uuid" and "uuid \<noteq> []"
    and "vals s (emailKey tid2 (email ud)) = None"
    and "no_string_at s (usersKey tid2)"
    and "json_roundtrip L (new_user L uuid now tid2 ud)"
  shows "fst (create_user_handler L uuid now c2 ud s) =
           Inr \<lparr>code = 201,
                 body = JObj [(''message'', JStr ''User created successfully''),
                              (''user'', JObj [(''userId'', JStr uuid), (''tenantId'', JStr tid2),
                                 (''username'', JStr (username ud)), (''email'', JStr (email ud)),
                                 (''role'', JStr (if truthy_str (role_opt ud)
                                                  then the (role_opt ud) else ''user'')),
                                 (''status'', JStr ''active''), (''createdAt'', JStr now)])]\<rparr>"
    and "email_registered L (snd (create_user_handler L uuid now c2 ud s)) tid (email ud)"
    and "email_registered L (snd (create_user_handler L uuid now c2 ud s)) tid2 (email ud)"
proof -
  define s' where "s' = snd (createUser L uuid now tid2 ud s)"
  note cs = createUser_store [OF assms(1,2,11), where L = L and uuid = uuid and now = now
      and ud = ud, folded s'_def]
  have get: "getUserByEmail L tid2 (email ud) s = (Inr JNull, s)"
    using assms(1,2,10) by (simp add: getUserByEmail_eq)
  define r where "r = JObj [(''userId'', JStr uuid), (''tenantId'', JStr tid2),
                  (''username'', JStr (username ud)), (''email'', JStr (email ud)),
                  (''role'', JStr (if truthy_str (role_opt ud) then the (role_opt ud) else ''user'')),
                  (''status'', JStr ''active''), (''createdAt'', JStr now)]"
  have "fst (createUser L uuid now tid2 ud s) = Inr r"
    using createUser_store(1) [OF assms(1,2,11), of L uuid now ud]
      new_user_public [of L uuid now tid2 ud]
    unfolding r_def by simp
  then have cu: "createUser L uuid now tid2 ud s = (Inr r, s')"
    unfolding s'_def by (cases "createUser L uuid now tid2 ud s") simp
  have h: "create_user_handler L uuid now c2 ud s =
      (Inr \<lparr>code = 201,
             body = JObj [(''message'', JStr ''User created successfully''), (''user'', r)]\<rparr>, s')"
    using get cu assms(4)
    by (simp add: create_user_handler_def bindIO_def catchIO_def returnIO_def)
  show "fst (create_user_handler L uuid now c2 ud s) =
           Inr \<lparr>code = 201,
                 body = JObj [(''message'', JStr ''User created successfully''),
                              (''user'', JObj [(''userId'', JStr uuid), (''tenantId'', JStr tid2),
                                 (''username'', JStr (username ud)), (''email'', JStr (email ud)),
                                 (''role'', JStr (if truthy_str (role_opt ud)
                                                  then the (role_opt ud) else ''user'')),
                                 (''status'', JStr ''active''), (''createdAt'', JStr now)])]\<rparr>"
    using h unfolding r_def by simp
  note sep = tenant_scoped_keys [OF assms(6,7) assms(5) [symmetric]]
  have e1: "vals s' (emailKey tid (email ud)) = vals s (emailKey tid (email ud))"
    using cs(5) [of "emailKey tid (email ud)"] sep by simp
  have u1: "vals s' (userKey tid uid) = vals s (userKey tid uid)" for uid
    using cs(5) [of "userKey tid uid"] sep by simp
  have "email_registered L s' tid (email ud)"
    using email_registered_cong [of s' tid "email ud" s L] e1 u1 assms(3) by simp
  then show "email_registered L (snd (create_user_handler L uuid now c2 ud s)) tid (email ud)"
    using h by simp
  have u2: "vals s' (userKey tid2 uuid) =
      Some (RString (JSON_stringify L (new_user L uuid now tid2 ud)))"
    using cs(5) [of "userKey tid2 uuid"] user_email_keys(1) [OF assms(8)] same_tenant_keys(1)
    by simp
  have "email_registered L s' tid2 (email ud)"
    using cs(4) u2 assms(9,12) new_user_truthy [of L uuid now tid2 ud]
    by (simp add: email_registered_def json_roundtrip_def)
  then show "email_registered L (snd (create_user_handler L uuid now c2 ud s)) tid2 (email ud)"
    using h by simp
qed


lemma consistent_unique:
  assumes "email_index_consistent L s"
  shows "emails_unique L s"
  unfolding emails_unique_def
proof (intro allI impI)
  fix tid u1 u2 m
  assume h: "colon_free tid \<and>
        colon_free u1 \<and> u1 \<noteq> [] \<and> u1 \<in> set (members s tid) \<and>
        colon_free u2 \<and> u2 \<noteq> [] \<and> u2 \<in> set (members s tid) \<and>
        stored_email L s tid u1 = Some (JStr m) \<and> stored_email L s tid u2 = Some (JStr m)"
  have "vals s (emailKey tid m) = Some (RString u1)"
    using assms h unfolding email_index_consistent_def by blast
  moreover have "vals s (emailKey tid m) = Some (RString u2)"
    using assms h unfolding email_index_consistent_def by blast
  ultimately show "u1 = u2" by simp
qed

lemma createUser_members:
  assumes "connected s" and "reachable s" and "no_string_at s (usersKey tid)"
  shows "set (members (snd (createUser L uuid now tid ud s)) tid) = insert uuid (set (members s tid))"
proof -
  have ne: "usersKey tid \<noteq> userKey tid uuid" "usersKey tid \<noteq> emailKey tid (email ud)"
    by (simp_all add: key_defs)
  show ?thesis
  proof (cases "vals s (usersKey tid)")
    case None
    then show ?thesis
      using assms(1,2) ne
      by (simp add: createUser_def Let_def io_defs redis_set_def redis_sAdd_def members_def)
  next
    case (Some v)
    then obtain ms where "v = RSet ms"
      using assms(3) by (cases v) (simp_all add: no_string_at_def)
    then show ?thesis
      using assms(1,2) ne Some
      by (auto simp add: createUser_def Let_def io_defs redis_set_def redis_sAdd_def members_def)
  qed
qed

lemma createUser_other_members:
  assumes "connected s" and "reachable s" and "no_string_at s (usersKey tid)"
    and "colon_free tid" and "colon_free tid'" and "tid' \<noteq> tid"
  shows "members (snd (createUser L uuid now tid ud s)) tid' = members s tid'"
proof -
  note sep = tenant_scoped_keys [OF assms(5,4,6)]
  show ?thesis
  proof (cases "vals s (usersKey tid)")
    case None
    then show ?thesis
      using assms(1,2) sep
      by (simp add: createUser_def Let_def io_defs redis_set_def redis_sAdd_def members_def)
  next
    case (Some v)
    then obtain ms where "v = RSet ms"
      using assms(3) by (cases v) (simp_all add: no_string_at_def)
    then show ?thesis
      using assms(1,2) sep Some
      by (simp add: createUser_def Let_def io_defs redis_set_def redis_sAdd_def members_def)
  qed
qed

lemma stored_email_cong:
  "vals s' (userKey tid uid) = vals s (userKey tid uid) \<Longrightarrow>
   stored_email L s' tid uid = stored_email L s tid uid"
  by (simp add: stored_email_def)

lemma stored_email_found:
  assumes "connected s" and "reachable s" and "uid \<noteq> []"
    and "vals s (emailKey tid m) = Some (RString uid)"
    and "stored_email L s tid uid = Some (JStr m')"
  shows "\<exists>usr. getUserByEmail L tid m s = (Inr usr, s) \<and> truthy (Some usr)"
proof -
  obtain raw where raw: "vals s (userKey tid uid) = Some (RString raw)"
    using assms(5)
    by (cases "vals s (userKey tid uid)") (auto simp add: stored_email_def split: rval.splits)
  then have ne: "raw \<noteq> []"
    using assms(5) by (auto simp add: stored_email_def split: if_splits)
  then obtain u where u: "JSON_parse L raw = Some u" "get_prop u ''email'' = Some (JStr m')"
    using assms(5) raw
    by (cases "JSON_parse L raw") (auto simp add: stored_email_def)
  have "truthy (Some u)"
    using u(2) by (cases u) simp_all
  moreover have "getUserByEmail L tid m s = (Inr u, s)"
    using assms(1-4) raw ne u(1) by (simp add: getUserByEmail_eq parseJSON_def)
  ultimately show ?thesis by blast
qed

lemma new_user_email: "get_prop (new_user L uuid now tid ud) ''email'' = Some (JStr (email ud))"
  by (simp add: new_user_def Let_def)

lemma createUser_consistent:
  assumes up: "connected s" "reachable s"
    and set_ok: "no_string_at s (usersKey tid)"
    and ids: "colon_free tid" "colon_free uuid"
    and rt: "json_roundtrip L (new_user L uuid now tid ud)"
    and free: "\<not> (\<exists>usr. getUserByEmail L tid (email ud) s = (Inr usr, s) \<and> truthy (Some usr))"
    and inv: "email_index_consistent L s"
  shows "email_index_consistent L (snd (createUser L uuid now tid ud s))"
proof -
  define s' where "s' = snd (createUser L uuid now tid ud s)"
  note cs = createUser_store [OF up set_ok, where L = L and uuid = uuid and now = now
      and ud = ud, folded s'_def]
  note mem = createUser_members [OF up set_ok, where L = L and uuid = uuid and now = now
      and ud = ud, folded s'_def]
  have "vals s' (emailKey t m) = Some (RString u)"
    if h: "colon_free t" "colon_free u" "u \<noteq> []" "u \<in> set (members s' t)"
      "stored_email L s' t u = Some (JStr m)" for t u m
  proof (cases "t = tid")
    case False
    note sep = tenant_scoped_keys [OF h(1) ids(1) False]
    have m1: "members s' t = members s t"
      using createUser_other_members [OF up set_ok ids(1) h(1) False, of L uuid now ud]
      by (simp add: s'_def)
    have "vals s' (userKey t u) = vals s (userKey t u)"
      using cs(5) [of "userKey t u"] sep by simp
    then have e1: "stored_email L s' t u = stored_email L s t u"
      by (rule stored_email_cong)
    have "vals s' (emailKey t m) = vals s (emailKey t m)"
      using cs(5) [of "emailKey t m"] sep by simp
    moreover have "vals s (emailKey t m) = Some (RString u)"
      using inv h m1 e1 unfolding email_index_consistent_def by metis
    ultimately show ?thesis by simp
  next
    case True
    note t = this
    show ?thesis
    proof (cases "u = uuid")
      case True
      have "vals s' (userKey tid uuid) =
          Some (RString (JSON_stringify L (new_user L uuid now tid ud)))"
        using cs(5) [of "userKey tid uuid"] user_email_keys(1) [OF ids(2)] same_tenant_keys(1)
        by simp
      then have "stored_email L s' tid uuid = Some (JStr (email ud))"
        using rt by (simp add: stored_email_def json_roundtrip_def new_user_email)
      then have "m = email ud"
        using h(5) t True by simp
      then show ?thesis using cs(4) t True by simp
    next
      case False
      have old: "u \<in> set (members s tid)"
        using h(4) mem t False by simp
      have ku: "userKey tid u \<noteq> userKey tid uuid"
        using False by (simp add: key_defs)
      have "vals s' (userKey tid u) = vals s (userKey tid u)"
        using cs(5) [of "userKey tid u"] user_email_keys(1) [OF h(2)] same_tenant_keys(1) ku
        by simp
      then have "stored_email L s' tid u = stored_email L s tid u"
        by (rule stored_email_cong)
      then have e: "stored_email L s tid u = Some (JStr m)"
        using h(5) t by simp
      have idx: "vals s (emailKey tid m) = Some (RString u)"
        using inv ids(1) h(2,3) old e unfolding email_index_consistent_def by blast
      have "m \<noteq> email ud"
      proof
        assume "m = email ud"
        then show False
          using stored_email_found [OF up h(3), of tid "email ud" L m] idx e free by simp
      qed
      then have km: "emailKey tid m \<noteq> emailKey tid (email ud)"
        by (simp add: key_defs)
      have "vals s' (emailKey tid m) = vals s (emailKey tid m)"
        using cs(5) [of "emailKey tid m"] km same_tenant_keys(4) user_email_keys(2) [OF ids(2)]
        by simp
      then show ?thesis using idx t by simp
    qed
  qed
  then show ?thesis
    unfolding email_index_consistent_def s'_def by blast
qed

lemma create_user_handler_consistent:
  assumes up: "connected s" "reachable s"
    and set_ok: "no_string_at s (usersKey (cred_tenantId c))"
    and ids: "colon_free (cred_tenantId c)" "colon_free uuid"
    and rt: "json_roundtrip L (new_user L uuid now (cred_tenantId c) ud)"
    and inv: "email_index_consistent L s"
  shows "email_index_consistent L (snd (create_user_handler L uuid now c ud s))"
proof -
  have g: "snd (getUserByEmail L (cred_tenantId c) (email ud) s) = s"
    by (simp add: getUserByEmail_eq)
  show ?thesis
  proof (cases "fst (getUserByEmail L (cred_tenantId c) (email ud) s)")
    case (Inl e)
    then have "getUserByEmail L (cred_tenantId c) (email ud) s = (Inl e, s)"
      using g by (cases "getUserByEmail L (cred_tenantId c) (email ud) s") simp
    then have "snd (create_user_handler L uuid now c ud s) = s"
      by (simp add: create_user_handler_def bindIO_def catchIO_def throwIO_def boom_or_def)
    then show ?thesis using inv by simp
  next
    case (Inr usr)
    then have get: "getUserByEmail L (cred_tenantId c) (email ud) s = (Inr usr, s)"
      using g by (cases "getUserByEmail L (cred_tenantId c) (email ud) s") simp
    show ?thesis
    proof (cases "truthy (Some usr)")
      case True
      then have "snd (create_user_handler L uuid now c ud s) = s"
        using get
        by (simp add: create_user_handler_def bindIO_def catchIO_def throwIO_def boom_or_def)
      then show ?thesis using inv by simp
    next
      case False
      then have free: "\<not> (\<exists>usr. getUserByEmail L (cred_tenantId c) (email ud) s = (Inr usr, s) \<and>
          truthy (Some usr))"
        using get by simp
      define s' where "s' = snd (createUser L uuid now (cred_tenantId c) ud s)"
      have "\<exists>r. fst (createUser L uuid now (cred_tenantId c) ud s) = Inr r"
        using createUser_store(1) [OF up set_ok, of L uuid now ud]
          new_user_public [of L uuid now "cred_tenantId c" ud]
        by simp
      then obtain r where "createUser L uuid now (cred_tenantId c) ud s = (Inr r, s')"
        unfolding s'_def by (cases "createUser L uuid now (cred_tenantId c) ud s") auto
      then have "snd (create_user_handler L uuid now c ud s) = s'"
        using get False
        by (simp add: create_user_handler_def bindIO_def catchIO_def returnIO_def)
      then show ?thesis
        using createUser_consistent [OF up set_ok ids rt free inv] s'_def by simp
    qed
  qed
qed

lemma create_user_route_consistent:
  assumes "connected s" and "reachable s"
    and "no_string_at s (usersKey (cred_tenantId c))"
    and "colon_free (cred_tenantId c)" and "colon_free uuid"
    and "json_roundtrip L (new_user L uuid now (cred_tenantId c) ud)"
    and "email_index_consistent L s"
  shows "email_index_consistent L (snd (create_user_route L uuid now c ud s))"
proof (cases "''admin'' \<in> set (scope c)")
  case True
  then show ?thesis
    using create_user_handler_consistent [OF assms]
    by (simp add: create_user_route_def require_scope_def bindIO_def returnIO_def)
next
  case False
  then show ?thesis
    using assms(7)
    by (simp add: create_user_route_def require_scope_def bindIO_def throwIO_def)
qed

lemma empty_store_consistent: "email_index_consistent L (s\<lparr>vals := Map.empty\<rparr>)"
  by (simp add: email_index_consistent_def members_def)

lemma create_user_route_admin:
  "''admin'' \<in> set (scope c) \<Longrightarrow>
   create_user_route L uuid now c ud = create_user_handler L uuid now c ud"
  by (simp add: create_user_route_def require_scope_def bindIO_def returnIO_def)

text \<open>
  C6. Emails are unique within a tenant, not across tenants. For an admin of a tenant
  in which the email is registered (the index names a user whose record loads),
  \<open>POST /api/users\<close> with that email fails with a conflict (409) and the store is as it
  was. For an admin of a different tenant, in whose index the email is free, the same
  request succeeds (201, the new user without its password), and afterwards the email
  is registered in both tenants. As an invariant: the email index is consistent in
  the empty store, \<open>POST /api/users\<close> leaves it consistent whatever it answers, and in
  a store with a consistent index no two users of a tenant have the same email.
  Tenant and user ids are UUIDs: they hold no colon.
\<close>

theorem email_unique_per_tenant:
  "(connected s \<and> reachable s \<and> ''admin'' \<in> set (scope c) \<and>
    email_registered L s (cred_tenantId c) (email ud) \<longrightarrow>
      create_user_route L uuid now c ud s =
        (Inl (Boom 409 ''User with this email already exists in tenant''), s)) \<and>
   (connected s \<and> reachable s \<and> ''admin'' \<in> set (scope c') \<and>
    email_registered L s tid (email ud) \<and>
    cred_tenantId c' = tid' \<and> tid' \<noteq> tid \<and>
    colon_free tid \<and> colon_free tid' \<and> colon_free uuid \<and> uuid \<noteq> [] \<and>
    vals s (emailKey tid' (email ud)) = None \<and> no_string_at s (usersKey tid') \<and>
    json_roundtrip L (new_user L uuid now tid' ud) \<longrightarrow>
      fst (create_user_route L uuid now c' ud s) =
        Inr \<lparr>code = 201,
              body = JObj [(''message'', JStr ''User created successfully''),
                           (''user'', JObj [(''userId'', JStr uuid), (''tenantId'', JStr tid'),
                              (''username'', JStr (username ud)), (''email'', JStr (email ud)),
                              (''role'', JStr (if truthy_str (role_opt ud)
                                               then the (role_opt ud) else ''user'')),
                              (''status'', JStr ''active''), (''createdAt'', JStr now)])]\<rparr> \<and>
      email_registered L (snd (create_user_route L uuid now c' ud s)) tid (email ud) \<and>
      email_registered L (snd (create_user_route L uuid now c' ud s)) tid' (email ud)) \<and>
   email_index_consistent L (s\<lparr>vals := Map.empty\<rparr>) \<and>
   (connected s \<and> reachable s \<and> colon_free (cred_tenantId c') \<and> colon_free uuid \<and>
    no_string_at s (usersKey (cred_tenantId c')) \<and>
    json_roundtrip L (new_user L uuid now (cred_tenantId c') ud) \<and>
    email_index_consistent L s \<longrightarrow>
      email_index_consistent L (snd (create_user_route L uuid now c' ud s))) \<and>
   (email_index_consistent L s \<longrightarrow> emails_unique L s)"
proof -
  have "email_index_consistent L (s\<lparr>vals := Map.empty\<rparr>)"
    by (rule empty_store_consistent)
  moreover have "connected s \<and> reachable s \<and> colon_free (cred_tenantId c') \<and> colon_free uuid \<and>
    no_string_at s (usersKey (cred_tenantId c')) \<and>
    json_roundtrip L (new_user L uuid now (cred_tenantId c') ud) \<and>
    email_index_consistent L s \<longrightarrow>
      email_index_consistent L (snd (create_user_route L uuid now c' ud s))"
    using create_user_route_consistent [of s c' uuid L now ud] by blast
  moreover have "email_index_consistent L s \<longrightarrow> emails_unique L s"
    using consistent_unique [of L s] by blast
  moreover have "connected s \<and> reachable s \<and> ''admin'' \<in> set (scope c) \<and>
    email_registered L s (cred_tenantId c) (email ud) \<longrightarrow>
      create_user_route L uuid now c ud s =
        (Inl (Boom 409 ''User with this email already exists in tenant''), s)"
    using create_user_conflict [of s L c ud uuid now]
      create_user_route_admin [of c L uuid now ud]
    by simp
  moreover have "connected s \<and> reachable s \<and> ''admin'' \<in> set (scope c') \<and>
    email_registered L s tid (email ud) \<and>
    cred_tenantId c' = tid' \<and> tid' \<noteq> tid \<and>
    colon_free tid \<and> colon_free tid' \<and> colon_free uuid \<and> uuid \<noteq> [] \<and>
    vals s (emailKey tid' (email ud)) = None \<and> no_string_at s (usersKey tid') \<and>
    json_roundtrip L (new_user L uuid now tid' ud) \<longrightarrow>
      fst (create_user_route L uuid now c' ud s) =
        Inr \<lparr>code = 201,
              body = JObj [(''message'', JStr ''User created successfully''),
                           (''user'', JObj [(''userId'', JStr uuid), (''tenantId'', JStr tid'),
                              (''username'', JStr (username ud)), (''email'', JStr (email ud)),
                              (''role'', JStr (if truthy_str (role_opt ud)
                                               then the (role_opt ud) else ''user'')),
                              (''status'', JStr ''active''), (''createdAt'', JStr now)])]\<rparr> \<and>
      email_registered L (snd (create_user_route L uuid now c' ud s)) tid (email ud) \<and>
      email_registered L (snd (create_user_route L uuid now c' ud s)) tid' (email ud)"
    using create_user_other_tenant [of s L tid ud c' tid' uuid now]
      create_user_route_admin [of c' L uuid now ud]
    by simp
  ultimately show ?thesis by blast
qed


lemma ex_uid_nonempty: "ex_uid \<noteq> []"
  by (simp add: ex_uid_def)

lemma ex_email_registered: "email_registered ex_L ex_store ex_tid ''alice@acme.com''"
  using ex_truthy(2)
  by (simp add: email_registered_def ex_store_email ex_store_user ex_nonempty ex_L_parse
        ex_uid_nonempty)

lemma ex_admin_props:
  "''admin'' \<in> set (scope ex_admin)" "cred_tenantId ex_admin = ex_tid"
  "''admin'' \<in> set (scope ex_admin_other)" "cred_tenantId ex_admin_other = ex_tid2"
  by (simp_all add: ex_admin_def ex_admin_other_def principal_def ex_artifacts_def ex_payload_def
        ex_user_def)

lemma ex_other_tenant_free:
  "vals ex_store (emailKey ex_tid2 ''alice@acme.com'') = None"
  "no_string_at ex_store (usersKey ex_tid2)"
  by (simp_all add: no_string_at_def ex_store_def key_defs ex_tid_def ex_tid2_def ex_uid_def)

lemma ex_new_user_other:
  "new_user ex_L ex_uid2 ''2024-03-01T00:00:00.000Z'' ex_tid2 ex_userData_same_email =
     ex_user_other_tenant"
  by (simp add: new_user_def ex_L_def ex_libs_def ex_userData_same_email_def
        ex_user_other_tenant_def ex_uid2_def ex_tid2_def)

lemma ex_parse_user_other:
  "JSON_parse ex_L (stringify_plain ex_user_other_tenant) = Some ex_user_other_tenant"
  by (simp add: ex_L_def ex_libs_def parse_table_def ex_docs_def ex_user_def ex_tenant_def
        ex_tenant_suspended_def ex_user_inactive_def ex_tenant_deactivated_def
        ex_user_other_tenant_def quoted_def ex_tid_def ex_uid_def)

lemma ex_roundtrip_user_other: "json_roundtrip ex_L ex_user_other_tenant"
  using ex_parse_user_other
  by (simp add: json_roundtrip_def) (simp add: ex_user_other_tenant_def)

lemma ex_store_sets:
  "vals ex_store k = Some (RSet ms) \<Longrightarrow> k = ''tenants:all'' \<or> k = usersKey ex_tid"
  by (simp add: ex_store_def split: if_splits)

lemma ex_members:
  assumes "colon_free tid"
  shows "members ex_store tid = (if tid = ex_tid then [ex_uid] else [])"
proof (cases "tid = ex_tid")
  case True
  then show ?thesis by (simp add: members_def ex_store_users)
next
  case False
  have "usersKey tid \<noteq> ''tenants:all''"
    by (simp add: key_defs)
  moreover have "usersKey tid \<noteq> usersKey ex_tid"
    using tenant_scoped_keys(8) [OF assms ex_colon_free(1) False] .
  ultimately have "vals ex_store (usersKey tid) \<noteq> Some (RSet ms)" for ms
    using ex_store_sets [of "usersKey tid" ms] by blast
  then show ?thesis
    using False
    by (cases "vals ex_store (usersKey tid)") (auto simp add: members_def split: rval.splits)
qed

lemma ex_stored_email: "stored_email ex_L ex_store ex_tid ex_uid = Some (JStr ''alice@acme.com'')"
  by (simp add: stored_email_def ex_store_user ex_nonempty ex_L_parse) (simp add: ex_user_def)

lemma ex_index_consistent: "email_index_consistent ex_L ex_store"
  unfolding email_index_consistent_def
proof (intro allI impI)
  fix tid uid m
  assume h: "colon_free tid \<and> colon_free uid \<and> uid \<noteq> [] \<and>
        uid \<in> set (members ex_store tid) \<and> stored_email ex_L ex_store tid uid = Some (JStr m)"
  then have "tid = ex_tid \<and> uid = ex_uid"
    using ex_members [of tid] by (cases "tid = ex_tid") simp_all
  then show "vals ex_store (emailKey tid m) = Some (RString uid)"
    using h ex_stored_email ex_store_email by simp
qed

theorem email_unique_per_tenant_witness:
  "email_registered ex_L ex_store ex_tid ''alice@acme.com'' \<and>
   create_user_route ex_L ex_uid2 ''2024-03-01T00:00:00.000Z'' ex_admin ex_userData_same_email
       ex_store =
     (Inl (Boom 409 ''User with this email already exists in tenant''), ex_store) \<and>
   fst (create_user_route ex_L ex_uid2 ''2024-03-01T00:00:00.000Z'' ex_admin_other
          ex_userData_same_email ex_store) =
     Inr \<lparr>code = 201,
           body = JObj [(''message'', JStr ''User created successfully''),
                        (''user'', JObj [(''userId'', JStr ex_uid2), (''tenantId'', JStr ex_tid2),
                           (''username'', JStr ''alice2''), (''email'', JStr ''alice@acme.com''),
                           (''role'', JStr ''user''), (''status'', JStr ''active''),
                           (''createdAt'', JStr ''2024-03-01T00:00:00.000Z'')])]\<rparr> \<and>
   email_registered ex_L
     (snd (create_user_route ex_L ex_uid2 ''2024-03-01T00:00:00.000Z'' ex_admin_other
             ex_userData_same_email ex_store)) ex_tid ''alice@acme.com'' \<and>
   email_registered ex_L
     (snd (create_user_route ex_L ex_uid2 ''2024-03-01T00:00:00.000Z'' ex_admin_other
             ex_userData_same_email ex_store)) ex_tid2 ''alice@acme.com'' \<and>
   email_index_consistent ex_L ex_store \<and> emails_unique ex_L ex_store \<and>
   email_index_consistent ex_L
     (snd (create_user_route ex_L ex_uid2 ''2024-03-01T00:00:00.000Z'' ex_admin_other
             ex_userData_same_email ex_store))"
proof -
  have ud: "email ex_userData_same_email = ''alice@acme.com''"
    "username ex_userData_same_email = ''alice2''"
    "role_opt ex_userData_same_email = Some ''user''"
    by (simp_all add: ex_userData_same_email_def)
  have ids: "ex_tid2 \<noteq> ex_tid" "ex_uid2 \<noteq> []"
    by (simp_all add: ex_tid_def ex_tid2_def ex_uid2_def)
  show ?thesis
    using email_unique_per_tenant [where s = ex_store and L = ex_L and c = ex_admin
        and ud = ex_userData_same_email and uuid = ex_uid2
        and now = "''2024-03-01T00:00:00.000Z''" and c' = ex_admin_other
        and tid = ex_tid and tid' = ex_tid2]
      ex_store_up ex_admin_props ex_email_registered ex_colon_free ex_other_tenant_free
      ex_roundtrip_user_other ids ex_index_consistent
    by (simp add: ud ex_new_user_other)
qed

subsection \<open>updateTenant and the domain index\<close>


lemma updateTenant_cases:
  assumes "updateTenant L now tid updates s = (Inr t', s')"
  obtains (absent) "t' = JNull" "s' = s"
  | (found) tenant where "getTenant L tid s = (Inr tenant, s)" "truthy (Some tenant)"
      "t' = updated_tenant now tid tenant updates"
      "s' = s\<lparr>vals := (vals s)(tenantKey tid \<mapsto> RString (JSON_stringify L t')),
               ttls := (ttls s)(tenantKey tid := None)\<rparr>"
      "connected s" "reachable s"
proof -
  obtain tenant where g: "getTenant L tid s = (Inr tenant, s)"
    using assms getTenant_state [of L tid s]
    by (cases "getTenant L tid s") (auto simp add: updateTenant_eq split: sum.splits)
  have up: "connected s" "reachable s"
    using g by (auto simp add: getTenant_eq split: if_splits)
  show ?thesis
  proof (cases "truthy (Some tenant)")
    case False
    then show ?thesis using assms g absent by (simp add: updateTenant_eq)
  next
    case True
    then show ?thesis
      using assms g up found [of tenant] by (auto simp add: updateTenant_eq)
  qed
qed

lemma updated_tenant_not_null [simp]: "updated_tenant now tid tenant updates \<noteq> JNull"
  by (simp add: updated_tenant_def)

lemma updateTenant_index:
  assumes "updateTenant L now tid updates s = (Inr t', s')" and "colon_free tid"
  shows "vals s' (domainKey d) = vals s (domainKey d)"
  using assms(1)
proof (cases rule: updateTenant_cases)
  case absent
  then show ?thesis by simp
next
  case (found tenant)
  then show ?thesis
    using colon_free_domainKey [OF assms(2), of d] by (simp add: eq_commute)
qed

lemma updated_tenant_domain:
  "get_prop (updated_tenant now tid tenant (JObj [(''domain'', JStr dnew)])) ''domain'' =
     Some (JStr dnew)"
  by (simp add: updated_tenant_def spread_def spread_props_def update_conv')

lemma updateTenant_new_domain:
  assumes "updateTenant L now tid (JObj [(''domain'', JStr dnew)]) s = (Inr t', s')"
    and "t' \<noteq> JNull" and "colon_free tid" and "vals s (domainKey dnew) = None"
  shows "getTenantByDomain L dnew s' = (Inr JNull, s')"
  using assms(1)
proof (cases rule: updateTenant_cases)
  case absent
  then show ?thesis using assms(2) by simp
next
  case (found tenant)
  have "vals s' (domainKey dnew) = None"
    using updateTenant_index [OF assms(1,3), of dnew] assms(4) by simp
  moreover have "connected s'" "reachable s'"
    using found by simp_all
  ultimately show ?thesis
    by (simp add: getTenantByDomain_eq)
qed

lemma updateTenant_old_domain:
  assumes "updateTenant L now tid (JObj [(''domain'', JStr dnew)]) s = (Inr t', s')"
    and "t' \<noteq> JNull" and "colon_free tid" and "tid \<noteq> []"
    and "vals s (domainKey dold) = Some (RString tid)" and "json_roundtrip L t'"
  shows "getTenantByDomain L dold s' = (Inr t', s') \<and>
         get_prop t' ''domain'' = Some (JStr dnew)"
  using assms(1)
proof (cases rule: updateTenant_cases)
  case absent
  then show ?thesis using assms(2) by simp
next
  case (found tenant)
  have idx: "vals s' (domainKey dold) = Some (RString tid)"
    using updateTenant_index [OF assms(1,3), of dold] assms(5) by simp
  have up: "connected s'" "reachable s'"
    using found by simp_all
  have rec: "vals s' (tenantKey tid) = Some (RString (JSON_stringify L t'))"
    using found(4) by simp
  have "getTenant L tid s' = (Inr t', s')"
    using up rec assms(6) by (simp add: getTenant_eq json_roundtrip_def parseJSON_def)
  then have a: "getTenantByDomain L dold s' = (Inr t', s')"
    using up idx assms(4) by (simp add: getTenantByDomain_eq)
  have b: "get_prop t' ''domain'' = Some (JStr dnew)"
    using found(3) by (simp add: updated_tenant_domain)
  show ?thesis using a b by simp
qed

lemma createTenant_roundtrip:
  assumes "connected s" and "reachable s" and "domain td \<noteq> []"
    and "no_string_at s ''tenants:all''" and "colon_free uuid" and "uuid \<noteq> []"
    and "json_roundtrip L (new_tenant uuid now td)"
  shows "getTenantByDomain L (domain td) (snd (createTenant L uuid now td s)) =
           (Inr (new_tenant uuid now td), snd (createTenant L uuid now td s))"
proof -
  define s' where "s' = snd (createTenant L uuid now td s)"
  note ct = createTenant_unchecked [OF assms(1-5), of L now, folded s'_def]
  have up: "connected s'" "reachable s'"
  proof -
    have "connected s' \<and> reachable s'"
    proof (cases "vals s ''tenants:all''")
      case None
      then show ?thesis
        using assms(1,2) unfolding s'_def
        by (simp add: createTenant_def Let_def io_defs redis_set_def redis_sAdd_def)
    next
      case (Some v)
      then obtain ms where "v = RSet ms"
        using assms(4) by (cases v) (simp_all add: no_string_at_def)
      then show ?thesis
        using assms(1,2) Some unfolding s'_def
        by (simp add: createTenant_def Let_def io_defs redis_set_def redis_sAdd_def)
    qed
    then show "connected s'" "reachable s'" by simp_all
  qed
  have "getTenant L uuid s' = (Inr (new_tenant uuid now td), s')"
    using up ct assms(7) by (simp add: getTenant_eq json_roundtrip_def parseJSON_def)
  then have "getTenantByDomain L (domain td) s' = (Inr (new_tenant uuid now td), s')"
    using up ct assms(6) by (simp add: getTenantByDomain_eq)
  then show ?thesis unfolding s'_def .
qed

text \<open>
  C10. \<open>updateTenant\<close> writes the tenant record and nothing else: every entry of the
  domain index is as it was. So after \<open>updateTenant\<close> has given an existing tenant a
  new domain (one the index does not hold), \<open>getTenantByDomain\<close> finds nothing under
  the new domain, and under the previous domain it still finds the tenant, whose
  record now bears the new domain; whereas right after \<open>createTenant\<close> the domain of
  the tenant leads to the tenant. Tenant ids are UUIDs: they hold no colon.
\<close>

theorem updateTenant_leaves_domain_index:
  "(updateTenant L now tid updates s = (Inr t', s') \<and> colon_free tid \<longrightarrow>
      (\<forall>d. vals s' (domainKey d) = vals s (domainKey d))) \<and>
   (updateTenant L now tid (JObj [(''domain'', JStr dnew)]) u = (Inr r, u') \<and> r \<noteq> JNull \<and>
    colon_free tid \<and> vals u (domainKey dnew) = None \<longrightarrow>
      getTenantByDomain L dnew u' = (Inr JNull, u')) \<and>
   (updateTenant L now tid (JObj [(''domain'', JStr dnew)]) u = (Inr r, u') \<and> r \<noteq> JNull \<and>
    colon_free tid \<and> tid \<noteq> [] \<and> vals u (domainKey dold) = Some (RString tid) \<and>
    json_roundtrip L r \<longrightarrow>
      getTenantByDomain L dold u' = (Inr r, u') \<and> get_prop r ''domain'' = Some (JStr dnew)) \<and>
   (connected w \<and> reachable w \<and> domain td \<noteq> [] \<and> no_string_at w ''tenants:all'' \<and>
    colon_free uuid \<and> uuid \<noteq> [] \<and> json_roundtrip L (new_tenant uuid now' td) \<longrightarrow>
      getTenantByDomain L (domain td) (snd (createTenant L uuid now' td w)) =
        (Inr (new_tenant uuid now' td), snd (createTenant L uuid now' td w)))"
  using updateTenant_index [of L now tid updates s t' s']
    updateTenant_new_domain [of L now tid dnew u r u']
    updateTenant_old_domain [of L now tid dnew u r u' dold]
    createTenant_roundtrip [of w td uuid L now']
  by blast


lemma ex_L_parse_more:
  "JSON_parse ex_L (stringify_plain ex_tenant_moved) = Some ex_tenant_moved"
  "JSON_parse ex_L (stringify_plain ex_tenant_second) = Some ex_tenant_second"
  by (simp_all add: ex_L_def ex_libs_def parse_table_def ex_docs_def ex_user_def ex_tenant_def
        ex_tenant_suspended_def ex_user_inactive_def ex_tenant_deactivated_def
        ex_user_other_tenant_def ex_tenant_moved_def ex_tenant_second_def quoted_def
        ex_tid_def ex_uid_def)

lemma ex_roundtrip_more:
  "json_roundtrip ex_L ex_tenant_moved" "json_roundtrip ex_L ex_tenant_second"
  using ex_L_parse_more
  by (simp_all add: json_roundtrip_def) (simp_all add: ex_tenant_moved_def ex_tenant_second_def)

lemma ex_updated_tenant_moved:
  "updated_tenant ''2024-02-01T00:00:00.000Z'' ex_tid ex_tenant (JObj [(''domain'', JStr ''acme.org'')])
     = ex_tenant_moved"
  by (simp add: updated_tenant_def ex_tenant_def ex_tenant_moved_def spread_def
        spread_props_def ex_tid_def)

lemma ex_updateTenant_moved:
  "updateTenant ex_L ''2024-02-01T00:00:00.000Z'' ex_tid (JObj [(''domain'', JStr ''acme.org'')])
     ex_store = (Inr ex_tenant_moved, ex_store_moved)"
  by (simp add: updateTenant_eq ex_getTenant ex_updated_tenant_moved ex_truthy ex_store_moved_def)

lemma ex_new_tenant_second:
  "new_tenant ex_tid2 ''2024-03-01T00:00:00.000Z'' ex_tenantData = ex_tenant_second"
  by (simp add: new_tenant_def ex_tenantData_def ex_tenant_second_def ex_tid2_def)

lemma ex_store_no_org: "vals ex_store (domainKey ''acme.org'') = None"
  by (simp add: ex_store_def key_defs ex_tid_def ex_uid_def)

theorem updateTenant_leaves_domain_index_witness:
  "updateTenant ex_L ''2024-02-01T00:00:00.000Z'' ex_tid (JObj [(''domain'', JStr ''acme.org'')])
     ex_store = (Inr ex_tenant_moved, ex_store_moved) \<and>
   vals ex_store_moved (domainKey ''acme.com'') = Some (RString ex_tid) \<and>
   getTenantByDomain ex_L ''acme.org'' ex_store_moved = (Inr JNull, ex_store_moved) \<and>
   getTenantByDomain ex_L ''acme.com'' ex_store_moved = (Inr ex_tenant_moved, ex_store_moved) \<and>
   get_prop ex_tenant_moved ''domain'' = Some (JStr ''acme.org'') \<and>
   getTenantByDomain ex_L ''acme.com''
       (snd (createTenant ex_L ex_tid2 ''2024-03-01T00:00:00.000Z'' ex_tenantData ex_store)) =
     (Inr ex_tenant_second,
      snd (createTenant ex_L ex_tid2 ''2024-03-01T00:00:00.000Z'' ex_tenantData ex_store))"
proof -
  have d: "domain ex_tenantData = ''acme.com''"
    by (simp add: ex_tenantData_def)
  have ne: "ex_tenant_moved \<noteq> JNull" "ex_tid2 \<noteq> []"
    by (simp_all add: ex_tenant_moved_def ex_tid2_def)
  show ?thesis
    using updateTenant_leaves_domain_index [where L = ex_L and now = "''2024-02-01T00:00:00.000Z''"
        and tid = ex_tid and updates = "JObj [(''domain'', JStr ''acme.org'')]" and s = ex_store
        and t' = ex_tenant_moved and s' = ex_store_moved and dnew = "''acme.org''"
        and u = ex_store and r = ex_tenant_moved and u' = ex_store_moved
        and dold = "''acme.com''" and w = ex_store and td = ex_tenantData
        and uuid = ex_tid2 and now' = "''2024-03-01T00:00:00.000Z''"]
      ex_updateTenant_moved ex_colon_free ex_tid_nonempty ex_store_no_org ex_store_domain
      ex_roundtrip_more ex_store_up ex_store_tenants_all ne
    by (simp add: d ex_new_tenant_second)
qed

subsection \<open>The LLM routes\<close>


lemma chat_handler_mismatch:
  assumes "headers ''x-tenant-id'' \<noteq> Some (cred_tenantId c)"
  shows "chat_handler post c headers req =
           (Inl (Boom 403 ''Tenant ID does not match authenticated user''), [])"
  using assms by (simp add: chat_handler_def Let_def)

lemma chat_route_mismatch:
  assumes "llm_headers_valid L headers"
    and "headers ''x-tenant-id'' \<noteq> Some (cred_tenantId c)"
    and "Joi_payload L ''chatRequestSchema'' pl = Some req"
  shows "chat_route L post c headers pl =
           (Inl (Boom 403 ''Tenant ID does not match authenticated user''), [])"
  using assms by (simp add: chat_route_def chat_handler_mismatch)

lemma chat_route_no_call:
  assumes "headers ''x-tenant-id'' \<noteq> Some (cred_tenantId c)"
  shows "snd (chat_route L post c headers pl) = [] \<and>
         fst (chat_route L post c headers pl) \<in>
           {Inl (Boom 400 ''Invalid request headers input''),
            Inl (Boom 400 ''Invalid request payload input''),
            Inl (Boom 403 ''Tenant ID does not match authenticated user'')}"
  using assms
  by (simp add: chat_route_def chat_handler_mismatch split: option.splits)

text \<open>The body the service posts for a validated request.\<close>

lemma set_stream_twice:
  "set_props [(''stream'', Some (JBool False))]
     (spread_props (JObj (set_props [(''stream'', Some (JBool False))] fs))) =
   set_props [(''stream'', Some (JBool False))] fs"
  by (simp add: spread_props_def)

lemma chat_handler_match:
  assumes "headers ''x-tenant-id'' = Some (cred_tenantId c)"
    and "map_of req ''messages'' \<noteq> None" and "map_of req ''messages'' \<noteq> Some JNull"
    and "post (JObj (AList.update ''stream'' (JBool False) req)) = AxiosData d"
    and "d \<noteq> JNull"
  shows "chat_handler post c headers (JObj req) =
           (Inr (JObj (set_props [(''tenant_id'', Some (JStr (cred_tenantId c))),
                                  (''user_id'', get_prop (user c) ''userId'')]
                         (spread_props d))),
            [JObj (AList.update ''stream'' (JBool False) req)])"
  using assms
  by (simp add: chat_handler_def ollama_chat_def Let_def spread_props_def update_conv')


lemma chat_route_match:
  assumes "llm_headers_valid L headers"
    and "headers ''x-tenant-id'' = Some (cred_tenantId c)"
    and "Joi_payload L ''chatRequestSchema'' pl = Some req"
    and "map_of req ''messages'' \<noteq> None" and "map_of req ''messages'' \<noteq> Some JNull"
    and "post (JObj (AList.update ''stream'' (JBool False) req)) = AxiosData (JObj answer)"
    and "get_prop (user c) ''userId'' = Some uid"
    and "Joi_response L (JObj (AList.update ''user_id'' uid
           (AList.update ''tenant_id'' (JStr (cred_tenantId c)) answer)))"
  shows "chat_route L post c headers pl =
           (Inr (JObj (AList.update ''user_id'' uid
                   (AList.update ''tenant_id'' (JStr (cred_tenantId c)) answer))),
            [JObj (AList.update ''stream'' (JBool False) req)])"
proof -
  have "chat_handler post c headers (JObj req) =
           (Inr (JObj (set_props [(''tenant_id'', Some (JStr (cred_tenantId c))),
                                  (''user_id'', get_prop (user c) ''userId'')]
                         (spread_props (JObj answer)))),
            [JObj (AList.update ''stream'' (JBool False) req)])"
    by (rule chat_handler_match) (use assms in \<open>simp_all\<close>)
  then show ?thesis
    using assms(1,3,7,8) by (simp add: chat_route_def spread_props_def)
qed

lemma ex_headers_valid:
  "llm_headers_valid ex_L (ex_headers (Some ex_tid))"
  "llm_headers_valid ex_L (ex_headers (Some ex_tid2))"
  "\<not> llm_headers_valid ex_L (ex_headers None)"
  "\<not> llm_headers_valid ex_L (ex_headers (Some ''different-tenant-id''))"
  by (simp_all add: llm_headers_valid_def ex_headers_def ex_L_def ex_libs_def ex_tid_def ex_tid2_def)

lemma ex_chat_payload:
  "Joi_payload ex_L ''chatRequestSchema'' ex_chat = Some (spread_props ex_chat)"
  by (simp add: ex_L_def ex_libs_def ex_chat_def spread_props_def)

lemma ex_admin_user: "get_prop (user ex_admin) ''userId'' = Some (JStr ex_uid)"
  by (simp add: ex_admin_def principal_def ex_user_def spread_props_def)

lemma ex_chat_body:
  "JObj (AList.update ''stream'' (JBool False) (spread_props ex_chat)) = ex_chat"
  "map_of (spread_props ex_chat) ''messages'' \<noteq> None"
  "map_of (spread_props ex_chat) ''messages'' \<noteq> Some JNull"
  by (simp_all add: ex_chat_def spread_props_def)

lemma ex_headers_lookup:
  "ex_headers v ''x-tenant-id'' = v"
  by (simp add: ex_headers_def)

lemma ex_L_strict_Joi:
  "Joi_uuid ex_L_strict = Joi_uuid ex_L" "Joi_payload ex_L_strict = Joi_payload ex_L"
  by (simp_all add: ex_L_strict_def)

lemma ex_L_strict_fields:
  "llm_headers_valid ex_L_strict headers = llm_headers_valid ex_L headers"
  "Joi_payload ex_L_strict = Joi_payload ex_L"
  by (simp_all add: llm_headers_valid_def ex_L_strict_Joi cong: option.case_cong)

lemma ex_strict_accepts:
  "Joi_response ex_L_strict
     (JObj (AList.update ''user_id'' (JStr ex_uid)
        (AList.update ''tenant_id'' (JStr ex_tid) (spread_props ex_answer))))"
  by (simp add: ex_L_strict_def ex_response_schema_def ex_answer_def spread_props_def)

lemma ex_chat_route_reason:
  "chat_route ex_L_strict ex_upstream_reason ex_admin (ex_headers (Some ex_tid)) ex_chat =
     (Inl (Boom 500 ''An internal server error occurred''), [ex_chat])"
proof -
  have "chat_handler ex_upstream_reason ex_admin (ex_headers (Some ex_tid))
          (JObj (spread_props ex_chat)) =
           (Inr (JObj (set_props [(''tenant_id'', Some (JStr (cred_tenantId ex_admin))),
                                  (''user_id'', get_prop (user ex_admin) ''userId'')]
                         (spread_props ex_answer_reason))),
            [JObj (AList.update ''stream'' (JBool False) (spread_props ex_chat))])"
    by (rule chat_handler_match)
       (simp_all add: ex_headers_lookup ex_admin_props ex_chat_body ex_upstream_reason_def
          ex_answer_reason_def)
  then show ?thesis
    by (simp add: chat_route_def ex_L_strict_fields ex_headers_valid ex_chat_payload
          ex_admin_props ex_admin_user ex_chat_body)
       (simp add: ex_L_strict_def ex_response_schema_def ex_answer_reason_def spread_props_def)
qed

text \<open>
  C8, as the claim states it, fails in both halves. A request whose \<open>x-tenant-id\<close>
  differs from the tenant of the credentials and is not a UUID is turned down by the
  \<open>headers\<close> schema of the route: 400, not forbidden. And with \<open>x-tenant-id\<close> equal to
  the tenant of the credentials and a valid message list, an answer of the inference
  service that has a property the response schema of the route does not list
  (\<open>done_reason\<close>) is not returned: the route answers 500, after the call.
\<close>

theorem chat_forbidden_or_annotated_counterexample:
  "''different-tenant-id'' \<noteq> cred_tenantId ex_admin \<and>
   chat_route ex_L ex_upstream_up ex_admin (ex_headers (Some ''different-tenant-id'')) ex_chat =
     (Inl (Boom 400 ''Invalid request headers input''), []) \<and>
   cred_tenantId ex_admin = ex_tid \<and>
   ex_upstream_reason ex_chat = AxiosData ex_answer_reason \<and>
   chat_route ex_L_strict ex_upstream_reason ex_admin (ex_headers (Some ex_tid)) ex_chat =
     (Inl (Boom 500 ''An internal server error occurred''), [ex_chat])"
proof -
  have "chat_route ex_L ex_upstream_up ex_admin (ex_headers (Some ''different-tenant-id'')) ex_chat =
     (Inl (Boom 400 ''Invalid request headers input''), [])"
    by (simp add: chat_route_def ex_headers_valid)
  moreover have "''different-tenant-id'' \<noteq> cred_tenantId ex_admin"
    by (simp add: ex_admin_props ex_tid_def)
  ultimately show ?thesis
    using ex_chat_route_reason by (simp add: ex_admin_props ex_upstream_reason_def)
qed

text \<open>
  C8, amended. A chat request that carries credentials and passes the validation of
  the route (\<open>x-tenant-id\<close> a UUID, \<open>authorization\<close> there, the payload, message list
  included, accepted by the schema): when \<open>x-tenant-id\<close> equals the tenant of the
  credentials, the inference service answers with an object, and that object with
  \<open>tenant_id\<close> and \<open>user_id\<close> set to the tenant and the user id of the credentials
  passes the response schema of the route, the response is that annotated object,
  and the service was called once, with the request and \<open>stream: false\<close>; when
  \<open>x-tenant-id\<close> differs, the request is answered 403 and the service is not called.
  Whatever the headers and the payload, no call is made when \<open>x-tenant-id\<close> is not the
  tenant of the credentials.
\<close>

theorem chat_annotated_or_refused_before_call:
  "(llm_headers_valid L headers \<and> headers ''x-tenant-id'' = Some (cred_tenantId c) \<and>
    Joi_payload L ''chatRequestSchema'' pl = Some req \<and>
    map_of req ''messages'' \<noteq> None \<and> map_of req ''messages'' \<noteq> Some JNull \<and>
    post (JObj (AList.update ''stream'' (JBool False) req)) = AxiosData (JObj answer) \<and>
    get_prop (user c) ''userId'' = Some uid \<and>
    Joi_response L (JObj (AList.update ''user_id'' uid
      (AList.update ''tenant_id'' (JStr (cred_tenantId c)) answer))) \<longrightarrow>
      chat_route L post c headers pl =
        (Inr (JObj (AList.update ''user_id'' uid
                (AList.update ''tenant_id'' (JStr (cred_tenantId c)) answer))),
         [JObj (AList.update ''stream'' (JBool False) req)])) \<and>
   (llm_headers_valid L headers' \<and> headers' ''x-tenant-id'' \<noteq> Some (cred_tenantId c) \<and>
    Joi_payload L ''chatRequestSchema'' pl = Some req \<longrightarrow>
      chat_route L post c headers' pl =
        (Inl (Boom 403 ''Tenant ID does not match authenticated user''), [])) \<and>
   (headers' ''x-tenant-id'' \<noteq> Some (cred_tenantId c) \<longrightarrow>
      snd (chat_route L post c headers' pl') = [])"
  using chat_route_match [of L headers c pl req post answer uid]
    chat_route_mismatch [of L headers' c pl req post]
    chat_route_no_call [of headers' c L post pl']
  by blast

theorem chat_annotated_or_refused_before_call_witness:
  "chat_route ex_L_strict ex_upstream_up ex_admin (ex_headers (Some ex_tid)) ex_chat =
     (Inr (JObj [(''model'', JStr ''llama2''), (''created_at'', JStr ''2024-01-15T10:30:00Z''),
                 (''message'', JObj [(''role'', JStr ''assistant''), (''content'', JStr ''Hi'')]),
                 (''done'', JBool True), (''tenant_id'', JStr ex_tid), (''user_id'', JStr ex_uid)]),
      [ex_chat]) \<and>
   chat_route ex_L_strict ex_upstream_up ex_admin (ex_headers (Some ex_tid2)) ex_chat =
     (Inl (Boom 403 ''Tenant ID does not match authenticated user''), []) \<and>
   snd (chat_route ex_L_strict ex_upstream_up ex_admin (ex_headers (Some ex_tid2)) JNull) = []"
proof -
  have h: "ex_headers (Some ex_tid) ''x-tenant-id'' = Some ex_tid"
    "ex_headers (Some ex_tid2) ''x-tenant-id'' = Some ex_tid2" "ex_tid2 \<noteq> ex_tid"
    by (simp_all add: ex_headers_def ex_tid_def ex_tid2_def)
  have a: "ex_answer = JObj (spread_props ex_answer)"
    by (simp add: ex_answer_def spread_props_def)
  show ?thesis
    using chat_annotated_or_refused_before_call [where L = ex_L_strict
        and headers = "ex_headers (Some ex_tid)" and c = ex_admin and pl = ex_chat
        and req = "spread_props ex_chat" and post = ex_upstream_up
        and answer = "spread_props ex_answer" and uid = "JStr ex_uid"
        and headers' = "ex_headers (Some ex_tid2)" and pl' = JNull]
      ex_headers_valid ex_chat_payload ex_admin_user ex_strict_accepts ex_admin_props(2) h a
    by (simp add: ex_upstream_up_def ex_L_strict_fields)
       (simp add: ex_chat_def ex_answer_def spread_props_def)
qed


lemma chat_route_upstream_error:
  assumes "llm_headers_valid L headers"
    and "headers ''x-tenant-id'' = Some (cred_tenantId c)"
    and "Joi_payload L ''chatRequestSchema'' pl = Some req"
    and "map_of req ''messages'' \<noteq> None" and "map_of req ''messages'' \<noteq> Some JNull"
    and "post (JObj (AList.update ''stream'' (JBool False) req)) = AxiosError m"
  shows "chat_route L post c headers pl =
           (Inl (Boom 500 ''Failed to process chat request''),
            [JObj (AList.update ''stream'' (JBool False) req)])"
  using assms
  by (simp add: chat_route_def chat_handler_def ollama_chat_def Let_def spread_props_def
        update_conv')

text \<open>
  C4: the code at a failing upstream. The service is down (connection refused) or
  does not answer within the timeout: \<open>OllamaService.chat\<close> throws
  \<open>Error('Ollama request failed: ...')\<close>, which is not a Boom error, and the \<open>catch\<close>
  of the handler turns it into \<open>Boom.badImplementation('Failed to process chat
  request')\<close>: status 500, the upstream text gone; not 502.
\<close>

theorem chat_upstream_failure_is_internal_error:
  "chat_route ex_L ex_upstream_down ex_admin (ex_headers (Some ex_tid)) ex_chat =
     (Inl (Boom 500 ''Failed to process chat request''), [ex_chat]) \<and>
   chat_route ex_L ex_upstream_slow ex_admin (ex_headers (Some ex_tid)) ex_chat =
     (Inl (Boom 500 ''Failed to process chat request''), [ex_chat]) \<and>
   fst (ollama_chat ex_upstream_down ex_chat ex_tid) =
     Inl (Error ''Ollama request failed: connect ECONNREFUSED 127.0.0.1:11434'')"
proof -
  have "chat_route ex_L ex_upstream_down ex_admin (ex_headers (Some ex_tid)) ex_chat =
     (Inl (Boom 500 ''Failed to process chat request''),
      [JObj (AList.update ''stream'' (JBool False) (spread_props ex_chat))])"
    by (rule chat_route_upstream_error
          [where m = "''connect ECONNREFUSED 127.0.0.1:11434''"])
       (simp_all add: ex_headers_valid ex_headers_lookup ex_admin_props ex_chat_payload
          ex_chat_body ex_upstream_down_def)
  moreover have "chat_route ex_L ex_upstream_slow ex_admin (ex_headers (Some ex_tid)) ex_chat =
     (Inl (Boom 500 ''Failed to process chat request''),
      [JObj (AList.update ''stream'' (JBool False) (spread_props ex_chat))])"
    by (rule chat_route_upstream_error [where m = "''timeout of 120000ms exceeded''"])
       (simp_all add: ex_headers_valid ex_headers_lookup ex_admin_props ex_chat_payload
          ex_chat_body ex_upstream_slow_def)
  moreover have "fst (ollama_chat ex_upstream_down ex_chat ex_tid) =
     Inl (Error ''Ollama request failed: connect ECONNREFUSED 127.0.0.1:11434'')"
    by (simp add: ollama_chat_def Let_def ex_upstream_down_def ex_chat_def)
  ultimately show ?thesis
    by (simp add: ex_chat_body)
qed

lemma llm_routes_headers_invalid:
  assumes "\<not> llm_headers_valid L headers"
  shows "chat_route L post c headers pl = (Inl (Boom 400 ''Invalid request headers input''), [])"
    and "models_route L tags c headers = (Inl (Boom 400 ''Invalid request headers input''), 0)"
  using assms by (simp_all add: chat_route_def models_route_def)

lemma models_route_mismatch:
  assumes "llm_headers_valid L headers"
    and "headers ''x-tenant-id'' \<noteq> Some (cred_tenantId c)"
  shows "models_route L tags c headers =
           (Inl (Boom 403 ''Tenant ID does not match authenticated user''), 0)"
  using assms by (simp add: models_route_def models_handler_def Let_def)

text \<open>
  C3: the code at a request without \<open>x-tenant-id\<close>. Both LLM routes declare the header
  required in their \<open>headers\<close> schema, so the framework answers 400 before the handler
  runs: not 403, and no message of the handler about a missing header (the handler
  has none). A declared tenant that is not a UUID gets the same 400. A declared UUID
  that differs from the tenant of the credentials is answered 403 with the mismatch
  message, and one that equals it passes.
\<close>

theorem tenant_header_missing_is_bad_request:
  "chat_route ex_L ex_upstream_up ex_admin (ex_headers None) ex_chat =
     (Inl (Boom 400 ''Invalid request headers input''), []) \<and>
   models_route ex_L (AxiosData (JObj [])) ex_admin (ex_headers None) =
     (Inl (Boom 400 ''Invalid request headers input''), 0) \<and>
   chat_route ex_L ex_upstream_up ex_admin (ex_headers (Some ''different-tenant-id'')) ex_chat =
     (Inl (Boom 400 ''Invalid request headers input''), []) \<and>
   chat_route ex_L ex_upstream_up ex_admin (ex_headers (Some ex_tid2)) ex_chat =
     (Inl (Boom 403 ''Tenant ID does not match authenticated user''), []) \<and>
   models_route ex_L (AxiosData (JObj [])) ex_admin (ex_headers (Some ex_tid2)) =
     (Inl (Boom 403 ''Tenant ID does not match authenticated user''), 0) \<and>
   models_route ex_L (AxiosData (JObj [])) ex_admin (ex_headers (Some ex_tid)) =
     (Inr (JObj [(''tenant_id'', JStr ex_tid)]), 1)"
proof -
  have ne: "Some ex_tid2 \<noteq> Some (cred_tenantId ex_admin)"
    by (simp add: ex_admin_props ex_tid_def ex_tid2_def)
  have "models_route ex_L (AxiosData (JObj [])) ex_admin (ex_headers (Some ex_tid)) =
     (Inr (JObj [(''tenant_id'', JStr ex_tid)]), 1)"
    by (simp add: models_route_def models_handler_def Let_def ex_headers_valid ex_headers_lookup
          ex_admin_props ollama_listModels_def spread_props_def)
  then show ?thesis
    using llm_routes_headers_invalid [OF ex_headers_valid(3)]
      llm_routes_headers_invalid [OF ex_headers_valid(4)]
      chat_route_mismatch [OF ex_headers_valid(2), of ex_admin ex_chat "spread_props ex_chat"]
      models_route_mismatch [OF ex_headers_valid(2), of ex_admin]
      ne ex_chat_payload
    by (simp add: ex_headers_lookup)
qed

end
